theory Spec2Isabelle
  imports Complex_Main "HOL-Library.Multiset" "HOL-Library.Sublist"
begin

section \<open>The multi-task trainer of nnUNetTrainerMultiTask.py\<close>

text \<open>
  The trainer drives a network with a segmentation head and a classification head.
  The network, the loss functor, the optimizer, the tensor kernels of the segmentation
  metrics, the logger and the distributed layer live outside the file; they are
  parameters of the model. What the file itself computes is embedded: the split of the
  network output, the classification confusion counts, the result mapping of a
  validation step, the reduction at the end of a validation epoch and the ramp of the
  classification weight at the start of a training epoch.

  Numbers: a count is a natural number, a Python or numpy float is a rational or
  not-a-number (rounding and the infinities are left out), an epoch index is an integer.
\<close>

subsection \<open>Errors, effects, floats\<close>

datatype py_error =
  IndexError | KeyError | ValueError | TypeError | AttributeError | RuntimeError

datatype event = PdbSetTrace | Log string | Print string

datatype npfloat = NaN | Fin rat

fun fin_values :: "npfloat list \<Rightarrow> rat list" where
  "fin_values [] = []"
| "fin_values (NaN # xs) = fin_values xs"
| "fin_values (Fin x # xs) = x # fin_values xs"

definition np_mean :: "npfloat list \<Rightarrow> npfloat" where
  \<comment> \<open>\<open>np.mean\<close>: not-a-number on an empty array and as soon as one entry is.\<close>
  "np_mean xs =
     (if xs = [] \<or> NaN \<in> set xs then NaN
      else Fin (sum_list (fin_values xs) / of_nat (length xs)))"

definition np_nanmean :: "npfloat list \<Rightarrow> npfloat" where
  \<comment> \<open>\<open>np.nanmean\<close>: the mean of the entries that are numbers; not-a-number
      (with a warning) when there is none.\<close>
  "np_nanmean xs =
     (let ys = fin_values xs
      in if ys = [] then NaN else Fin (sum_list ys / of_nat (length ys)))"

subsection \<open>One-dimensional arrays\<close>

definition broadcast2 :: "'a list \<Rightarrow> 'b list \<Rightarrow> py_error + ('a \<times> 'b) list" where
  \<comment> \<open>The pairing behind an elementwise operation of two one-dimensional arrays:
      equal lengths pair up, a length of one is repeated, anything else is refused.\<close>
  "broadcast2 xs ys =
     (if length xs = length ys then Inr (zip xs ys)
      else if length xs = 1 then Inr (zip (replicate (length ys) (hd xs)) ys)
      else if length ys = 1 then Inr (zip xs (replicate (length xs) (hd ys)))
      else Inl ValueError)"

definition np_vstack :: "'a list list \<Rightarrow> py_error + 'a list list" where
  \<comment> \<open>\<open>np.vstack([a[None] for a in arrays])\<close>: the arrays become the rows of a
      matrix, so there is at least one and they all have one length.\<close>
  "np_vstack rows =
     (case rows of
        [] \<Rightarrow> Inl ValueError
      | r # rs \<Rightarrow> if \<forall>r' \<in> set rs. length r' = length r then Inr rows else Inl ValueError)"

definition np_sum0 :: "nat list list \<Rightarrow> nat list" where
  \<comment> \<open>\<open>np.sum(m, 0)\<close> and \<open>m.sum(0)\<close> of a matrix given by its rows: the column sums.\<close>
  "np_sum0 rows =
     (case rows of
        [] \<Rightarrow> []
      | r # _ \<Rightarrow> map (\<lambda>j. sum_list (map (\<lambda>r'. r' ! j) rows)) [0..<length r])"

subsection \<open>Python objects returned by the network\<close>

text \<open>
  A tensor whose entries the trainer never reads is a value of the type parameter; the
  classification logits, a tensor of shape [batch, classes], are given by the number of
  classes and the rows. A dict is an association list with distinct keys, and its
  keys are strings.
\<close>

datatype 't pyobj =
  Tensor 't
| Logits nat "rat list list"
| PyDict "(string \<times> 't pyobj) list"

definition getitem :: "(string \<times> 'v) list \<Rightarrow> string \<Rightarrow> py_error + 'v" where
  "getitem kvs k = (case map_of kvs k of None \<Rightarrow> Inl KeyError | Some v \<Rightarrow> Inr v)"

definition split_output :: "'t pyobj \<Rightarrow> py_error + 't pyobj \<times> 't pyobj option" where
  \<comment> \<open>Lines 128-133 of \<open>train_step\<close> and, with the same text, 157-161 of
      \<open>validation_step\<close>.\<close>
  "split_output output =
     (case output of
        PyDict kvs \<Rightarrow>
          if length kvs = 2 then
            (case getitem kvs ''segmentation'' of
               Inl e \<Rightarrow> Inl e
             | Inr seg \<Rightarrow>
                 (case getitem kvs ''classification'' of
                    Inl e \<Rightarrow> Inl e
                  | Inr cls \<Rightarrow> Inr (seg, Some cls)))
          else Inr (output, None)
      | _ \<Rightarrow> Inr (output, None))"

subsection \<open>The trainer and its collaborators\<close>

datatype loss_entry = TorchTensor npfloat | PyFloat npfloat

type_synonym loss_dict = "string \<rightharpoonup> loss_entry"

record label_manager =
  has_regions :: bool
  has_ignore_label :: bool

record 'p trainer =
  num_classification_classes :: nat
  seg_weight :: rat
  cls_weight :: rat
  loss_type :: string
  loss_seg_weight :: rat
  loss_cls_weight :: rat
  is_ddp :: bool
  current_epoch :: "int option"
  enable_deep_supervision :: bool
  label_manager :: label_manager
  params :: 'p

text \<open>
  \<open>loss_seg_weight\<close> and \<open>loss_cls_weight\<close> are the two weights held by the loss
  functor \<open>self.loss\<close>: \<open>_build_loss\<close> sets them from \<open>seg_weight\<close> and
  \<open>cls_weight\<close>, the hook at the start of a training epoch overwrites the second.
  \<open>current_epoch\<close> is \<open>None\<close> when the attribute does not exist (the test
  \<open>hasattr(self, 'current_epoch')\<close> of line 440). \<open>params\<close> is what a training
  step changes: the parameters of the network and the state of the optimizer.
\<close>

record ('t, 'p) collaborators =
  network :: "'p \<Rightarrow> 't \<Rightarrow> 't pyobj"
  loss_call :: "rat \<Rightarrow> rat \<Rightarrow> 't pyobj \<Rightarrow> 't \<Rightarrow> 't pyobj option \<Rightarrow> int list
                  \<Rightarrow> py_error + loss_dict"
  backward_and_step :: "'p \<Rightarrow> npfloat \<Rightarrow> 'p"
  seg_tp_fp_fn :: "bool \<Rightarrow> label_manager \<Rightarrow> 't pyobj \<Rightarrow> 't
                  \<Rightarrow> py_error + nat list \<times> nat list \<times> nat list"
  tensor_cls_counts :: "'t \<Rightarrow> int list
                  \<Rightarrow> py_error + nat list \<times> nat list \<times> nat list \<times> nat list \<times> nat"
  super_on_train_epoch_start :: "'p trainer \<Rightarrow> 'p trainer"

text \<open>
  \<open>loss_call sw cw seg target cls cls_target\<close> is a call of the loss functor whose
  weights are \<open>sw\<close> and \<open>cw\<close>.

  \<open>seg_tp_fp_fn\<close> stands for what lines 166-216 of \<open>validation_step\<close> compute
  from a segmentation output that is a tensor: the choice of the finest output, the
  one-hot prediction, the ignore mask and \<open>get_tp_fp_fn_tn\<close>, all of them tensor
  kernels; it gets the deep-supervision flag and the label manager and returns the
  counts per channel. It is not asked about a dict, see \<open>segmentation_counts\<close>.

  \<open>tensor_cls_counts\<close> stands for what lines 228-253 compute from a classification
  prediction that is a tensor whose entries the model does not hold: the four count
  arrays and the number of correct predictions. For logits of shape [batch, classes]
  the lines are embedded, see \<open>classification_metrics\<close>.
\<close>

record 't batch =
  data :: 't
  target :: 't
  class_target :: "int list"

definition build_loss :: "'p trainer \<Rightarrow> 'p trainer" where
  "build_loss self = self\<lparr>loss_seg_weight := seg_weight self, loss_cls_weight := cls_weight self\<rparr>"

subsection \<open>The training step\<close>

definition train_step_tail ::
  "('t, 'p) collaborators \<Rightarrow> 'p trainer \<Rightarrow> 't batch \<Rightarrow> 't pyobj \<times> 't pyobj option
     \<Rightarrow> py_error + loss_dict \<times> 'p trainer" where
  \<comment> \<open>Lines 135-142: the loss, \<open>loss_dict['loss'].backward()\<close>, the optimizer.\<close>
  "train_step_tail C self b sc =
     (case sc of (seg_output, cls_output) \<Rightarrow>
        (case loss_call C (loss_seg_weight self) (loss_cls_weight self)
                seg_output (target b) cls_output (class_target b) of
           Inl e \<Rightarrow> Inl e
         | Inr loss_dict \<Rightarrow>
             (case loss_dict ''loss'' of
                None \<Rightarrow> Inl KeyError
              | Some (PyFloat _) \<Rightarrow> Inl AttributeError
              | Some (TorchTensor l) \<Rightarrow>
                  Inr (loss_dict, self\<lparr>params := backward_and_step C (params self) l\<rparr>))))"

definition train_step ::
  "('t, 'p) collaborators \<Rightarrow> 'p trainer \<Rightarrow> 't batch
     \<Rightarrow> py_error + loss_dict \<times> 'p trainer" where
  "train_step C self b =
     (let output = network C (params self) (data b)
      in case split_output output of
           Inl e \<Rightarrow> Inl e
         | Inr sc \<Rightarrow> train_step_tail C self b sc)"

subsection \<open>The validation step\<close>

fun argmax_from :: "rat \<Rightarrow> nat \<Rightarrow> nat \<Rightarrow> rat list \<Rightarrow> nat" where
  \<comment> \<open>best value so far, its index, the index of the next entry, the entries left\<close>
  "argmax_from best bi i [] = bi"
| "argmax_from best bi i (x # xs) =
     (if best < x then argmax_from x i (Suc i) xs else argmax_from best bi (Suc i) xs)"

definition argmax :: "rat list \<Rightarrow> nat" where
  \<comment> \<open>The index of the largest entry of a row that is not empty, the first one on a
      tie.\<close>
  "argmax row = (case row of [] \<Rightarrow> 0 | x # xs \<Rightarrow> argmax_from x 0 1 xs)"

definition torch_argmax_dim1 :: "nat \<Rightarrow> rat list list \<Rightarrow> py_error + int list" where
  \<comment> \<open>\<open>torch.argmax(cls_output, dim=1)\<close> on logits of shape [batch, classes]: the
      class of each sample. A tensor of shape [batch, 0] is refused by torch.\<close>
  "torch_argmax_dim1 c rows =
     (if c = 0 then Inl IndexError else Inr (map (\<lambda>r. int (argmax r)) rows))"

definition count_true :: "bool list \<Rightarrow> nat" where
  "count_true bs = length (filter (\<lambda>b. b) bs)"

record cls_counts =
  cls_tp :: "nat list"
  cls_fp :: "nat list"
  cls_fn :: "nat list"
  cls_tn :: "nat list"
  cls_correct :: nat
  cls_total :: nat

definition class_counts ::
  "int list \<Rightarrow> int list \<Rightarrow> nat \<Rightarrow> py_error + nat \<times> nat \<times> nat \<times> nat" where
  \<comment> \<open>The body of the loop of lines 238-246 for one class index.\<close>
  "class_counts cls_pred cls_target class_idx =
     (let pred_positive = map (\<lambda>p. p = int class_idx) cls_pred;
          target_positive = map (\<lambda>t. t = int class_idx) cls_target
      in case broadcast2 pred_positive target_positive of
           Inl e \<Rightarrow> Inl RuntimeError
         | Inr pt \<Rightarrow>
             Inr (count_true (map (\<lambda>(p, t). p \<and> t) pt),
                  count_true (map (\<lambda>(p, t). p \<and> \<not> t) pt),
                  count_true (map (\<lambda>(p, t). \<not> p \<and> t) pt),
                  count_true (map (\<lambda>(p, t). \<not> p \<and> \<not> t) pt)))"

fun class_loop ::
  "int list \<Rightarrow> int list \<Rightarrow> nat list
     \<Rightarrow> py_error + (nat \<times> nat \<times> nat \<times> nat) list" where
  "class_loop cls_pred cls_target [] = Inr []"
| "class_loop cls_pred cls_target (class_idx # rest) =
     (case class_counts cls_pred cls_target class_idx of
        Inl e \<Rightarrow> Inl e
      | Inr q \<Rightarrow>
          (case class_loop cls_pred cls_target rest of
             Inl e \<Rightarrow> Inl e
           | Inr qs \<Rightarrow> Inr (q # qs)))"

definition logits_metrics :: "nat \<Rightarrow> rat list list \<Rightarrow> int list \<Rightarrow> py_error + cls_counts" where
  \<comment> \<open>Lines 227-255 on logits of shape [batch, num_classes]. The targets are a tensor
      of shape [batch].\<close>
  "logits_metrics num_classes rows target_cls =
     (case torch_argmax_dim1 num_classes rows of
        Inl e \<Rightarrow> Inl e
      | Inr cls_pred \<Rightarrow>
          (let cls_target = target_cls
           in case class_loop cls_pred cls_target [0..<num_classes] of
                Inl e \<Rightarrow> Inl e
              | Inr qs \<Rightarrow>
                  (case broadcast2 cls_pred cls_target of
                     Inl e \<Rightarrow> Inl RuntimeError
                   | Inr pt \<Rightarrow>
                       Inr \<lparr>cls_tp = map (\<lambda>(tp, fp, fn, tn). tp) qs,
                            cls_fp = map (\<lambda>(tp, fp, fn, tn). fp) qs,
                            cls_fn = map (\<lambda>(tp, fp, fn, tn). fn) qs,
                            cls_tn = map (\<lambda>(tp, fp, fn, tn). tn) qs,
                            cls_correct = count_true (map (\<lambda>(p, t). p = t) pt),
                            cls_total = length cls_target\<rparr>)))"

definition classification_metrics ::
  "('t, 'p) collaborators \<Rightarrow> 't pyobj \<Rightarrow> int list \<Rightarrow> py_error + cls_counts" where
  \<comment> \<open>Lines 226-255 by the kind of \<open>cls_output\<close>; \<open>target_cls\<close> is never
      \<open>None\<close> after line 151. A dict has no \<open>argmax\<close>: torch refuses it with a
      \<open>TypeError\<close>. \<open>cls_total\<close> is \<open>cls_target.numel()\<close> whatever the
      prediction.\<close>
  "classification_metrics C cls_output target_cls =
     (case cls_output of
        Logits num_classes rows \<Rightarrow> logits_metrics num_classes rows target_cls
      | Tensor t \<Rightarrow>
          (case tensor_cls_counts C t target_cls of
             Inl e \<Rightarrow> Inl e
           | Inr (tp, fp, fn, tn, n_correct) \<Rightarrow>
               Inr \<lparr>cls_tp = tp, cls_fp = fp, cls_fn = fn, cls_tn = tn,
                    cls_correct = n_correct, cls_total = length target_cls\<rparr>)
      | PyDict _ \<Rightarrow> Inl TypeError)"

datatype np_scalar =
  is_Float: Float (scalar_value: npfloat)
| is_Array0: Array0 (scalar_value: npfloat)

text \<open>
  A loss entry of the result is a Python float (\<open>Float\<close>) or a numpy array of no
  dimension (\<open>Array0\<close>, from \<open>.detach().cpu().numpy()\<close>): numpy collates and stacks
  the two in different ways.
\<close>

record val_result =
  loss :: np_scalar
  seg_loss :: np_scalar
  cls_loss :: np_scalar
  tp_hard :: "nat list"
  fp_hard :: "nat list"
  fn_hard :: "nat list"
  cls_metrics :: "cls_counts option"

text \<open>
  The mapping returned by \<open>validation_step\<close> has the six keys of lines 259-264 and,
  from \<open>**cls_metrics\<close>, either all six classification keys or none of them:
  \<open>cls_metrics\<close> is \<open>None\<close> for the empty dict.
\<close>

definition loss_get :: "loss_dict \<Rightarrow> string \<Rightarrow> np_scalar" where
  \<comment> \<open>\<open>d.get(k, 0.0).detach().cpu().numpy() if isinstance(d.get(k, 0.0), torch.Tensor)
      else d.get(k, 0.0)\<close>\<close>
  "loss_get d k =
     (case (case d k of None \<Rightarrow> PyFloat (Fin 0) | Some v \<Rightarrow> v) of
        TorchTensor x \<Rightarrow> Array0 x
      | PyFloat x \<Rightarrow> Float x)"

definition segmentation_counts ::
  "('t, 'p) collaborators \<Rightarrow> 'p trainer \<Rightarrow> 't pyobj \<Rightarrow> 't
     \<Rightarrow> py_error + nat list \<times> nat list \<times> nat list" where
  \<comment> \<open>Lines 166-222. A dict, its keys being strings, has no entry under the key 0
      for \<open>seg_output[0]\<close> (line 169, under deep supervision) and no attribute
      \<open>ndim\<close> (line 176); for a tensor the lines are tensor kernels. Lines 219-222
      drop the counts of the background.\<close>
  "segmentation_counts C self seg_output target_seg =
     (case seg_output of
        PyDict _ \<Rightarrow>
          if enable_deep_supervision self then Inl KeyError else Inl AttributeError
      | _ \<Rightarrow>
          (case seg_tp_fp_fn C (enable_deep_supervision self) (label_manager self)
                  seg_output target_seg of
             Inl e \<Rightarrow> Inl e
           | Inr (tp, fp, fn) \<Rightarrow>
               if \<not> has_regions (label_manager self)
               then Inr (drop 1 tp, drop 1 fp, drop 1 fn)
               else Inr (tp, fp, fn)))"

definition validation_step_tail ::
  "('t, 'p) collaborators \<Rightarrow> 'p trainer \<Rightarrow> 't batch \<Rightarrow> 't pyobj \<times> 't pyobj option
     \<Rightarrow> event list \<times> (py_error + val_result)" where
  \<comment> \<open>Lines 163-269.\<close>
  "validation_step_tail C self b sc =
     (case sc of (seg_output, cls_output) \<Rightarrow>
      (case loss_call C (loss_seg_weight self) (loss_cls_weight self)
              seg_output (target b) cls_output (class_target b) of
         Inl e \<Rightarrow> ([], Inl e)
       | Inr loss_dict \<Rightarrow>
      (case segmentation_counts C self seg_output (target b) of
         Inl e \<Rightarrow> ([], Inl e)
       | Inr (tp, fp, fn) \<Rightarrow>
      (case (case cls_output of
               None \<Rightarrow> Inr None
             | Some c \<Rightarrow>
                 (case classification_metrics C c (class_target b) of
                    Inl e \<Rightarrow> Inl e
                  | Inr m \<Rightarrow> Inr (Some m))) of
         Inl e \<Rightarrow> ([], Inl e)
       | Inr cm \<Rightarrow>
           ([PdbSetTrace],
            Inr \<lparr>loss = loss_get loss_dict ''total_loss'',
                 seg_loss = loss_get loss_dict ''seg_loss'',
                 cls_loss = loss_get loss_dict ''cls_loss'',
                 tp_hard = tp, fp_hard = fp, fn_hard = fn,
                 cls_metrics = cm\<rparr>)))))"

definition validation_step ::
  "('t, 'p) collaborators \<Rightarrow> 'p trainer \<Rightarrow> 't batch
     \<Rightarrow> event list \<times> (py_error + val_result)" where
  "validation_step C self b =
     (let output = network C (params self) (data b)
      in case split_output output of
           Inl e \<Rightarrow> ([], Inl e)
         | Inr sc \<Rightarrow> validation_step_tail C self b sc)"

subsection \<open>The hook at the start of a training epoch\<close>

text \<open>
  The hook of the base class, called first, is a parameter; \<open>current_epoch\<close> and
  \<open>cls_weight\<close> are read from the trainer as that call leaves it.
\<close>

definition on_train_epoch_start :: "('t, 'p) collaborators \<Rightarrow> 'p trainer \<Rightarrow> 'p trainer" where
  "on_train_epoch_start C self =
     (let self1 = super_on_train_epoch_start C self
      in case current_epoch self1 of
           None \<Rightarrow> self1
         | Some e \<Rightarrow>
             (let epoch_ratio = min (of_int e / 100) 1
              in self1\<lparr>loss_cls_weight := cls_weight self1 * epoch_ratio\<rparr>))"

fun train_steps ::
  "('t, 'p) collaborators \<Rightarrow> 'p trainer \<Rightarrow> 't batch list
     \<Rightarrow> py_error + loss_dict list \<times> 'p trainer" where
  \<comment> \<open>Modelled from the spec: the training steps of an epoch, one after the other, see
      \<open>train_epoch\<close>.\<close>
  "train_steps C self [] = Inr ([], self)"
| "train_steps C self (b # bs) =
     (case train_step C self b of
        Inl e \<Rightarrow> Inl e
      | Inr (l, self') \<Rightarrow>
          (case train_steps C self' bs of
             Inl e \<Rightarrow> Inl e
           | Inr (ls, self'') \<Rightarrow> Inr (l # ls, self'')))"

definition train_epoch ::
  "('t, 'p) collaborators \<Rightarrow> 'p trainer \<Rightarrow> 't batch list
     \<Rightarrow> py_error + loss_dict list \<times> 'p trainer" where
  \<comment> \<open>Modelled from the spec: the epoch loop of the base trainer's \<open>run_training\<close> is
      not among the sources. Sections 4.7 and 5: the hook runs before each training
      epoch, then the training steps of the epoch run one after the other.\<close>
  "train_epoch C self bs = train_steps C (on_train_epoch_start C self) bs"

subsection \<open>The reduction at the end of a validation epoch\<close>

record collated_cls =
  c_cls_tp :: "nat list list"
  c_cls_fp :: "nat list list"
  c_cls_fn :: "nat list list"
  c_cls_tn :: "nat list list"
  c_cls_correct :: "nat list"
  c_cls_total :: "nat list"

datatype column = PyList (column_values: "npfloat list") | Stack (column_values: "npfloat list")

text \<open>
  The values of a loss key over the steps: a Python list of the numbers, or an array
  of one column with a row a step.
\<close>

record collated =
  c_loss :: column
  c_seg_loss :: column
  c_cls_loss :: column
  c_tp_hard :: "nat list list"
  c_fp_hard :: "nat list list"
  c_fn_hard :: "nat list list"
  c_cls :: "collated_cls option"

definition collate_cls :: "val_result list \<Rightarrow> py_error + collated_cls" where
  \<comment> \<open>Modelled from the spec: the classification keys of \<open>collate_outputs\<close>, see
      below.\<close>
  "collate_cls outputs =
     (case those (map cls_metrics outputs) of
        None \<Rightarrow> Inl KeyError
      | Some ms \<Rightarrow>
     (case np_vstack (map cls_tp ms) of Inl e \<Rightarrow> Inl e | Inr tps \<Rightarrow>
     (case np_vstack (map cls_fp ms) of Inl e \<Rightarrow> Inl e | Inr fps \<Rightarrow>
     (case np_vstack (map cls_fn ms) of Inl e \<Rightarrow> Inl e | Inr fns \<Rightarrow>
     (case np_vstack (map cls_tn ms) of Inl e \<Rightarrow> Inl e | Inr tns \<Rightarrow>
        Inr \<lparr>c_cls_tp = tps, c_cls_fp = fps, c_cls_fn = fns, c_cls_tn = tns,
             c_cls_correct = map cls_correct ms, c_cls_total = map cls_total ms\<rparr>)))))"

definition collate_scalar :: "np_scalar list \<Rightarrow> py_error + column" where
  \<comment> \<open>Modelled from the spec: a loss key of \<open>collate_outputs\<close>, see below. Numbers
      make a list; arrays of no dimension are stacked, \<open>np.vstack([v[None] ...])\<close>,
      and a Python float among them has no \<open>[None]\<close>.\<close>
  "collate_scalar vs =
     (case vs of
        [] \<Rightarrow> Inl IndexError
      | Float _ # _ \<Rightarrow> Inr (PyList (map scalar_value vs))
      | Array0 _ # _ \<Rightarrow>
          if list_all is_Array0 vs then Inr (Stack (map scalar_value vs)) else Inl TypeError)"

definition collate_outputs :: "val_result list \<Rightarrow> py_error + collated" where
  \<comment> \<open>Modelled from the spec: \<open>collate_outputs\<close> (nnunetv2/utilities/collate_outputs.py)
      is not among the sources. Section 4.6 reduces "the list of all per-step validation
      results": under each key of the first result, the values of all the steps, one row
      a step, in the way numpy holds them (a list of Python numbers, a stack of arrays).
      There is no first result in an empty list, a later result that lacks a key of the
      first has nothing to give, and rows of different lengths make no array.\<close>
  "collate_outputs outputs =
     (case outputs of
        [] \<Rightarrow> Inl IndexError
      | first # _ \<Rightarrow>
     (case collate_scalar (map loss outputs) of Inl e \<Rightarrow> Inl e | Inr losses \<Rightarrow>
     (case collate_scalar (map seg_loss outputs) of Inl e \<Rightarrow> Inl e | Inr seg_losses \<Rightarrow>
     (case collate_scalar (map cls_loss outputs) of Inl e \<Rightarrow> Inl e | Inr cls_losses \<Rightarrow>
     (case np_vstack (map tp_hard outputs) of Inl e \<Rightarrow> Inl e | Inr tps \<Rightarrow>
     (case np_vstack (map fp_hard outputs) of Inl e \<Rightarrow> Inl e | Inr fps \<Rightarrow>
     (case np_vstack (map fn_hard outputs) of Inl e \<Rightarrow> Inl e | Inr fns \<Rightarrow>
     (case (case cls_metrics first of
              None \<Rightarrow> Inr None
            | Some _ \<Rightarrow>
                (case collate_cls outputs of Inl e \<Rightarrow> Inl e | Inr cc \<Rightarrow> Inr (Some cc))) of
        Inl e \<Rightarrow> Inl e
      | Inr cc \<Rightarrow>
          Inr \<lparr>c_loss = losses, c_seg_loss = seg_losses, c_cls_loss = cls_losses,
               c_tp_hard = tps, c_fp_hard = fps, c_fn_hard = fns, c_cls = cc\<rparr>))))))))"

definition np_mean_column :: "column \<Rightarrow> npfloat" where
  \<comment> \<open>\<open>np.mean\<close> of a collated loss key: the mean of all its numbers.\<close>
  "np_mean_column c = np_mean (column_values c)"

fun ncols :: "column \<Rightarrow> nat" where
  \<comment> \<open>The second dimension that \<open>np.vstack\<close> sees: a list of n numbers is one row
      of n entries, a stack is n rows of one entry.\<close>
  "ncols (PyList vs) = length vs"
| "ncols (Stack vs) = 1"

definition np_vstack_mean :: "column list \<Rightarrow> py_error + npfloat" where
  \<comment> \<open>\<open>np.vstack(columns).mean()\<close>: the columns are stacked when there is one and
      all have the same second dimension; the mean is over all the numbers.\<close>
  "np_vstack_mean cols =
     (case cols of
        [] \<Rightarrow> Inl ValueError
      | c # cs \<Rightarrow>
          if list_all (\<lambda>c'. ncols c' = ncols c) cs
          then Inr (np_mean (concat (map column_values cols)))
          else Inl ValueError)"

definition np_size :: "'a list list \<Rightarrow> nat" where
  "np_size rows = sum_list (map length rows)"

record cls_summary =
  cls_accuracy :: rat
  cls_precision_per_class :: "rat list"
  cls_recall_per_class :: "rat list"
  cls_f1_per_class :: "rat list"
  cls_macro_precision :: npfloat
  cls_macro_recall :: npfloat
  cls_macro_f1 :: npfloat

record epoch_summary =
  mean_fg_dice :: npfloat
  dice_per_class :: "npfloat list"
  total_loss :: npfloat
  val_seg_loss :: npfloat
  val_cls_loss :: npfloat
  cls_metrics_summary :: "cls_summary option"

text \<open>
  The returned mapping: \<open>val_seg_loss\<close> and \<open>val_cls_loss\<close> are its keys
  \<open>seg_loss\<close> and \<open>cls_loss\<close>; \<open>cls_metrics_summary\<close> is \<open>None\<close> when the
  classification keys are not there.
\<close>

definition dice :: "nat \<Rightarrow> nat \<Rightarrow> nat \<Rightarrow> npfloat" where
  \<comment> \<open>\<open>2 * i / (2 * i + j + k)\<close> on numpy numbers: a zero denominator of counts
      comes with a zero numerator, and 0 / 0 is not-a-number there, not an exception.\<close>
  "dice i j k =
     (if 2 * i + j + k = 0 then NaN else Fin (of_nat (2 * i) / of_nat (2 * i + j + k)))"

definition global_dc_per_class :: "nat list \<Rightarrow> nat list \<Rightarrow> nat list \<Rightarrow> npfloat list" where
  "global_dc_per_class tp fp fn = map (\<lambda>(i, j, k). dice i j k) (zip tp (zip fp fn))"

definition np_add :: "rat list \<Rightarrow> rat list \<Rightarrow> py_error + rat list" where
  "np_add a b =
     (case broadcast2 a b of Inl e \<Rightarrow> Inl e | Inr ab \<Rightarrow> Inr (map (\<lambda>(x, y). x + y) ab))"

definition np_multiply :: "rat list \<Rightarrow> rat list \<Rightarrow> py_error + rat list" where
  "np_multiply a b =
     (case broadcast2 a b of Inl e \<Rightarrow> Inl e | Inr ab \<Rightarrow> Inr (map (\<lambda>(x, y). x * y) ab))"

definition np_divide_where :: "rat list \<Rightarrow> rat list \<Rightarrow> nat \<Rightarrow> py_error + rat list" where
  \<comment> \<open>\<open>np.divide(a, b, out=np.zeros(n), where=b != 0)\<close>: the quotient where the
      divisor is not zero, the zero of \<open>out\<close> elsewhere; \<open>out\<close> has to have the shape
      of the broadcast operands.\<close>
  "np_divide_where a b n =
     (case broadcast2 a b of
        Inl e \<Rightarrow> Inl e
      | Inr ab \<Rightarrow>
          if length ab \<noteq> n then Inl ValueError
          else Inr (map (\<lambda>(x, y). if y \<noteq> 0 then x / y else 0) ab))"

definition classification_summary ::
  "nat list \<Rightarrow> nat list \<Rightarrow> nat list \<Rightarrow> nat \<Rightarrow> nat \<Rightarrow> py_error + cls_summary" where
  \<comment> \<open>Lines 358-380.\<close>
  "classification_summary tp fp fn n_correct n_total =
     (let cls_accuracy = (if n_total > 0 then of_nat n_correct / of_nat n_total else 0);
          tp = map of_nat tp; fp = map of_nat fp; fn = map of_nat fn
      in
      case np_add tp fp of Inl e \<Rightarrow> Inl e | Inr tp_fp \<Rightarrow>
     (case np_divide_where tp tp_fp (length tp) of Inl e \<Rightarrow> Inl e | Inr cls_precision \<Rightarrow>
     (case np_add tp fn of Inl e \<Rightarrow> Inl e | Inr tp_fn \<Rightarrow>
     (case np_divide_where tp tp_fn (length tp) of Inl e \<Rightarrow> Inl e | Inr cls_recall \<Rightarrow>
     (case np_multiply (map (\<lambda>p. 2 * p) cls_precision) cls_recall of
        Inl e \<Rightarrow> Inl e | Inr num \<Rightarrow>
     (case np_add cls_precision cls_recall of Inl e \<Rightarrow> Inl e | Inr den \<Rightarrow>
     (case np_divide_where num den (length cls_precision) of
        Inl e \<Rightarrow> Inl e
      | Inr cls_f1 \<Rightarrow>
          Inr \<lparr>cls_accuracy = cls_accuracy,
               cls_precision_per_class = cls_precision,
               cls_recall_per_class = cls_recall,
               cls_f1_per_class = cls_f1,
               cls_macro_precision = np_nanmean (map Fin cls_precision),
               cls_macro_recall = np_nanmean (map Fin cls_recall),
               cls_macro_f1 = np_nanmean (map Fin cls_f1)\<rparr>)))))))"

definition report :: "npfloat list \<Rightarrow> bool \<Rightarrow> event list" where
  \<comment> \<open>Lines 384-420: the calls of the logger and the lines printed.\<close>
  "report dc has_cls =
     [Log ''mean_fg_dice'', Log ''dice_per_class_or_region'', Log ''val_losses'',
      Log ''val_total_loss'', Log ''val_seg_loss'', Log ''val_cls_loss'']
     @ (if has_cls then
          [Log ''cls_accuracy'', Log ''cls_macro_f1'', Log ''cls_macro_precision'',
           Log ''cls_macro_recall'', Log ''cls_f1_per_class'',
           Log ''cls_precision_per_class'', Log ''cls_recall_per_class'']
        else [])
     @ [Print ''=== Validation Epoch Results ==='', Print ''Total Loss'',
        Print ''Segmentation Loss'', Print ''Classification Loss'',
        Print ''Mean Foreground Dice'']
     @ (if length dc \<ge> 2 then [Print ''Pancreas Dice'', Print ''Lesion Dice''] else [])
     @ (if has_cls then
          [Print ''Classification Accuracy'', Print ''Classification Macro F1'',
           Print ''Classification Macro Precision'', Print ''Classification Macro Recall'']
        else [])
     @ [Print ''=================================================='']"

subsubsection \<open>The collective calls\<close>

text \<open>
  \<open>dist.all_gather_object\<close> hands the worker's object to the distributed layer and
  comes back with the list of the objects of all workers, in rank order. A worker is a
  program that either is done or waits in such a call with its object and goes on from
  the list it gets. The three calls differ in the object: an array of counts, a
  collated loss key, a number. The string names the variable that is gathered.
\<close>

datatype 'r prog =
  Done 'r
| GatherCounts string "nat list" "nat list list \<Rightarrow> 'r prog"
| GatherLosses string column "column list \<Rightarrow> 'r prog"
| GatherNumber string nat "nat list \<Rightarrow> 'r prog"

type_synonym epoch_end = "(event list \<times> (py_error + epoch_summary)) prog"

definition all_gather_sum0 ::
  "string \<Rightarrow> nat list \<Rightarrow> event list \<Rightarrow> (nat list \<Rightarrow> epoch_end) \<Rightarrow> epoch_end" where
  \<comment> \<open>\<open>xs = [None] * world_size; dist.all_gather_object(xs, x);
      x = np.vstack([i[None] for i in xs]).sum(0)\<close>\<close>
  "all_gather_sum0 name x ev k =
     GatherCounts name x
       (\<lambda>xs. case np_vstack xs of Inl e \<Rightarrow> Done (ev, Inl e) | Inr m \<Rightarrow> k (np_sum0 m))"

definition all_gather_mean ::
  "string \<Rightarrow> column \<Rightarrow> event list \<Rightarrow> (npfloat \<Rightarrow> epoch_end) \<Rightarrow> epoch_end" where
  \<comment> \<open>\<open>dist.all_gather_object(xs, column); x = np.vstack(xs).mean()\<close>\<close>
  "all_gather_mean name col ev k =
     GatherLosses name col
       (\<lambda>cols. case np_vstack_mean cols of Inl e \<Rightarrow> Done (ev, Inl e) | Inr m \<Rightarrow> k m)"

definition all_gather_sum ::
  "string \<Rightarrow> nat \<Rightarrow> (nat \<Rightarrow> epoch_end) \<Rightarrow> epoch_end" where
  \<comment> \<open>\<open>dist.all_gather_object(xs, x); x = np.sum(xs)\<close>\<close>
  "all_gather_sum name x k = GatherNumber name x (\<lambda>xs. k (sum_list xs))"

definition classification_block ::
  "'p trainer \<Rightarrow> collated \<Rightarrow> event list \<Rightarrow> (cls_summary option \<Rightarrow> epoch_end) \<Rightarrow> epoch_end" where
  \<comment> \<open>Lines 325-380.\<close>
  "classification_block self oc ev k =
     (case c_cls oc of
        None \<Rightarrow> k None
      | Some cc \<Rightarrow>
          if \<not> np_size (c_cls_tp cc) > 0 then k None
          else
            (let cls_tp = np_sum0 (c_cls_tp cc);
                 cls_fp = np_sum0 (c_cls_fp cc);
                 cls_fn = np_sum0 (c_cls_fn cc);
                 cls_tn = np_sum0 (c_cls_tn cc);
                 n_correct = sum_list (c_cls_correct cc);
                 n_total = sum_list (c_cls_total cc);
                 metrics = (\<lambda>tp fp fn n_correct n_total.
                    case classification_summary tp fp fn n_correct n_total of
                      Inl e \<Rightarrow> Done (ev, Inl e)
                    | Inr s \<Rightarrow> k (Some s))
             in if is_ddp self then
                  all_gather_sum0 ''cls_tp'' cls_tp ev (\<lambda>cls_tp.
                  all_gather_sum0 ''cls_fp'' cls_fp ev (\<lambda>cls_fp.
                  all_gather_sum0 ''cls_fn'' cls_fn ev (\<lambda>cls_fn.
                  all_gather_sum ''cls_correct'' n_correct (\<lambda>n_correct.
                  all_gather_sum ''cls_total'' n_total (\<lambda>n_total.
                    metrics cls_tp cls_fp cls_fn n_correct n_total)))))
                else metrics cls_tp cls_fp cls_fn n_correct n_total))"

definition reduce_and_report ::
  "'p trainer \<Rightarrow> collated \<Rightarrow> event list \<Rightarrow> nat list \<Rightarrow> nat list \<Rightarrow> nat list
     \<Rightarrow> npfloat \<Rightarrow> npfloat \<Rightarrow> npfloat \<Rightarrow> epoch_end" where
  \<comment> \<open>Lines 320-429, from the counts and the loss means on.\<close>
  "reduce_and_report self oc ev tp fp fn mean_loss mean_seg_loss mean_cls_loss =
     (let dc = global_dc_per_class tp fp fn;
          mean_fg_dice = np_nanmean dc
      in classification_block self oc ev (\<lambda>cls.
           Done (ev @ report dc (cls \<noteq> None),
                 Inr \<lparr>mean_fg_dice = mean_fg_dice, dice_per_class = dc,
                      total_loss = mean_loss, val_seg_loss = mean_seg_loss,
                      val_cls_loss = mean_cls_loss, cls_metrics_summary = cls\<rparr>)))"

definition on_validation_epoch_end :: "'p trainer \<Rightarrow> val_result list \<Rightarrow> epoch_end" where
  "on_validation_epoch_end self val_outputs =
     (case collate_outputs val_outputs of
        Inl e \<Rightarrow> Done ([], Inl e)
      | Inr oc \<Rightarrow>
          (let ev = [PdbSetTrace];
               tp = np_sum0 (c_tp_hard oc);
               fp = np_sum0 (c_fp_hard oc);
               fn = np_sum0 (c_fn_hard oc)
           in if is_ddp self then
                all_gather_sum0 ''tp'' tp ev (\<lambda>tp.
                all_gather_sum0 ''fp'' fp ev (\<lambda>fp.
                all_gather_sum0 ''fn'' fn ev (\<lambda>fn.
                all_gather_mean ''loss'' (c_loss oc) ev (\<lambda>total_loss.
                all_gather_mean ''seg_loss'' (c_seg_loss oc) ev (\<lambda>seg_loss.
                all_gather_mean ''cls_loss'' (c_cls_loss oc) ev (\<lambda>cls_loss.
                  reduce_and_report self oc ev tp fp fn total_loss seg_loss cls_loss))))))
              else reduce_and_report self oc ev tp fp fn
                     (np_mean_column (c_loss oc)) (np_mean_column (c_seg_loss oc))
                     (np_mean_column (c_cls_loss oc))))"

subsubsection \<open>Running the workers\<close>

primrec single_worker :: "'r prog \<Rightarrow> 'r option" where
  \<comment> \<open>A run with no peer: the program has to be done without a collective call.\<close>
  "single_worker (Done r) = Some r"
| "single_worker (GatherCounts n x k) = None"
| "single_worker (GatherLosses n x k) = None"
| "single_worker (GatherNumber n x k) = None"

primrec two_workers :: "'r prog \<Rightarrow> 'r prog \<Rightarrow> ('r \<times> 'r) option" where
  \<comment> \<open>Ranks 0 and 1 in lockstep: a collective call returns in both once both are in
      one, with the objects in rank order. \<open>None\<close>: a worker waits in a call that its
      peer does not make, or the two make calls that do not match.\<close>
  "two_workers (Done a) q = (case q of Done b \<Rightarrow> Some (a, b) | _ \<Rightarrow> None)"
| "two_workers (GatherCounts n x k) q =
     (case q of GatherCounts m y k' \<Rightarrow> two_workers (k [x, y]) (k' [x, y]) | _ \<Rightarrow> None)"
| "two_workers (GatherLosses n x k) q =
     (case q of GatherLosses m y k' \<Rightarrow> two_workers (k [x, y]) (k' [x, y]) | _ \<Rightarrow> None)"
| "two_workers (GatherNumber n x k) q =
     (case q of GatherNumber m y k' \<Rightarrow> two_workers (k [x, y]) (k' [x, y]) | _ \<Rightarrow> None)"





inductive returns :: "'r prog \<Rightarrow> 'r \<Rightarrow> bool" where
  \<comment> \<open>What a worker can end with, whatever the distributed layer answers.\<close>
  returns_Done: "returns (Done r) r"
| returns_Counts: "returns (k xs) r \<Longrightarrow> returns (GatherCounts n x k) r"
| returns_Losses: "returns (k ls) r \<Longrightarrow> returns (GatherLosses n x k) r"
| returns_Number: "returns (k ns) r \<Longrightarrow> returns (GatherNumber n x k) r"

inductive_cases returns_DoneE: "returns (Done r') r"
inductive_cases returns_CountsE: "returns (GatherCounts n x k) r"
inductive_cases returns_LossesE: "returns (GatherLosses n x k) r"
inductive_cases returns_NumberE: "returns (GatherNumber n x k) r"

subsection \<open>Auxiliary notions\<close>

definition rectangular :: "'a list list \<Rightarrow> bool" where
  \<comment> \<open>Rows that make a matrix: at least one, all of one length.\<close>
  "rectangular rows \<longleftrightarrow> rows \<noteq> [] \<and> (\<forall>r \<in> set rows. length r = length (hd rows))"



definition gatherable_losses ::
  "(val_result \<Rightarrow> np_scalar) \<Rightarrow> val_result list \<Rightarrow> val_result list \<Rightarrow> bool" where
  \<comment> \<open>The entries of a loss key in the results of two workers are all arrays, or
      they are all Python floats and the two workers have the same number of steps.\<close>
  "gatherable_losses key xs ys \<longleftrightarrow>
     (\<forall>v \<in> set (xs @ ys). is_Array0 (key v))
     \<or> ((\<forall>v \<in> set (xs @ ys). is_Float (key v)) \<and> length xs = length ys)"


subsection \<open>Concrete inputs\<close>

definition example_network :: "unit \<Rightarrow> nat \<Rightarrow> nat pyobj" where
  "example_network p x =
     (if x = 0 then
        PyDict [(''segmentation'', Tensor x),
                (''classification'', Logits 2 [[1, 2], [3, 1], [0, 0]])]
      else if x = 1 then Tensor x
      else if x = 3 then
        PyDict [(''segmentation'', Tensor x),
                (''classification'', Logits 2 [[1, 2], [3, 1], [0, 0]]),
                (''features'', Tensor x)]
      else PyDict [(''seg'', Tensor x), (''cls'', Logits 2 [[1, 2]])])"

definition example_loss ::
  "rat \<Rightarrow> rat \<Rightarrow> nat pyobj \<Rightarrow> nat \<Rightarrow> nat pyobj option \<Rightarrow> int list \<Rightarrow> py_error + loss_dict" where
  "example_loss sw cw seg t cls ct =
     Inr [''loss'' \<mapsto> TorchTensor (Fin (sw + cw)), ''total_loss'' \<mapsto> TorchTensor (Fin (sw + cw)),
          ''seg_loss'' \<mapsto> TorchTensor (Fin 1), ''cls_loss'' \<mapsto> TorchTensor (Fin 1)]"

definition example_collaborators :: "(nat, unit) collaborators" where
  "example_collaborators =
     \<lparr>network = example_network,
      loss_call = example_loss,
      backward_and_step = (\<lambda>p l. p),
      seg_tp_fp_fn = (\<lambda>ds lm seg t. Inr ([9, 1, 2], [9, 3, 4], [9, 5, 6])),
      tensor_cls_counts = (\<lambda>t ct. Inr ([0], [0], [length ct], [0], 0)),
      super_on_train_epoch_start = (\<lambda>self. self)\<rparr>"

definition example_trainer :: "unit trainer" where
  "example_trainer =
     \<lparr>num_classification_classes = 3, seg_weight = 1, cls_weight = 1 / 2,
      loss_type = ''dice_ce'', loss_seg_weight = 1, loss_cls_weight = 1 / 2,
      is_ddp = False, current_epoch = Some 50, enable_deep_supervision = False,
      label_manager = \<lparr>has_regions = False, has_ignore_label = False\<rparr>,
      params = ()\<rparr>"

definition example_batch :: "nat \<Rightarrow> nat batch" where
  "example_batch x = \<lparr>data = x, target = 7, class_target = [1, 1, 0]\<rparr>"

definition example_result :: val_result where
  "example_result =
     \<lparr>loss = Array0 (Fin (3 / 2)), seg_loss = Array0 (Fin 1), cls_loss = Array0 (Fin 1),
      tp_hard = [1, 2], fp_hard = [3, 4], fn_hard = [5, 6],
      cls_metrics = Some \<lparr>cls_tp = [1, 1], cls_fp = [1, 0], cls_fn = [0, 1],
                           cls_tn = [1, 1], cls_correct = 2, cls_total = 3\<rparr>\<rparr>"

definition example_summary :: epoch_summary where
  "example_summary =
     \<lparr>mean_fg_dice = Fin (17 / 70), dice_per_class = [Fin (1 / 5), Fin (2 / 7)],
      total_loss = Fin (3 / 2), val_seg_loss = Fin 1, val_cls_loss = Fin 1,
      cls_metrics_summary =
        Some \<lparr>cls_accuracy = 2 / 3, cls_precision_per_class = [1 / 2, 1],
              cls_recall_per_class = [1, 1 / 2], cls_f1_per_class = [2 / 3, 2 / 3],
              cls_macro_precision = Fin (3 / 4), cls_macro_recall = Fin (3 / 4),
              cls_macro_f1 = Fin (2 / 3)\<rparr>\<rparr>"

definition example_result2 :: val_result where
  "example_result2 =
     example_result\<lparr>loss := Array0 (Fin (1 / 2)), tp_hard := [0, 0], fp_hard := [0, 1], fn_hard := [0, 2]\<rparr>"

definition example_whole :: val_result where
  "example_whole = example_result\<lparr>tp_hard := [2, 4], fp_hard := [6, 9], fn_hard := [10, 14]\<rparr>"

definition example_summary3 :: epoch_summary where
  "example_summary3 =
     example_summary\<lparr>mean_fg_dice := Fin (71 / 310),
                     dice_per_class := [Fin (1 / 5), Fin (8 / 31)], total_loss := Fin (7 / 6)\<rparr>"

definition example_float_result :: val_result where
  "example_float_result = example_result\<lparr>loss := Float (Fin 0), cls_loss := Float (Fin 0)\<rparr>"

definition example_cls_step1 :: val_result where
  "example_cls_step1 =
     example_result\<lparr>cls_metrics :=
       Some \<lparr>cls_tp = [1, 0], cls_fp = [1, 0], cls_fn = [0, 1], cls_tn = [2, 3],
             cls_correct = 3, cls_total = 4\<rparr>\<rparr>"

definition example_cls_step2 :: val_result where
  "example_cls_step2 =
     example_result2\<lparr>cls_metrics :=
       Some \<lparr>cls_tp = [1, 0], cls_fp = [0, 0], cls_fn = [0, 2], cls_tn = [5, 4],
             cls_correct = 4, cls_total = 6\<rparr>\<rparr>"

definition example_cls_summary :: cls_summary where
  "example_cls_summary =
     \<lparr>cls_accuracy = 7 / 10,
      cls_precision_per_class = [2 / 3, 0], cls_recall_per_class = [1, 0],
      cls_f1_per_class = [4 / 5, 0],
      cls_macro_precision = Fin (1 / 3), cls_macro_recall = Fin (1 / 2),
      cls_macro_f1 = Fin (2 / 5)\<rparr>"

definition example_summary2 :: epoch_summary where
  "example_summary2 =
     example_summary\<lparr>mean_fg_dice := Fin (37 / 170),
                     dice_per_class := [Fin (1 / 5), Fin (4 / 17)], total_loss := Fin 1\<rparr>"

definition example_collated :: collated where
  "example_collated =
     \<lparr>c_loss = Stack [Fin (3 / 2), Fin (1 / 2)], c_seg_loss = Stack [Fin 1, Fin 1],
      c_cls_loss = Stack [Fin 1, Fin 1],
      c_tp_hard = [[1, 2], [0, 0]], c_fp_hard = [[3, 4], [0, 1]],
      c_fn_hard = [[5, 6], [0, 2]],
      c_cls = Some \<lparr>c_cls_tp = [[1, 1], [1, 1]], c_cls_fp = [[1, 0], [1, 0]],
                     c_cls_fn = [[0, 1], [0, 1]], c_cls_tn = [[1, 1], [1, 1]],
                     c_cls_correct = [2, 2], c_cls_total = [3, 3]\<rparr>\<rparr>"

definition example_ddp_trainer :: "unit trainer" where
  "example_ddp_trainer = example_trainer\<lparr>is_ddp := True\<rparr>"

section \<open>Properties\<close>

subsection \<open>The concrete inputs, evaluated\<close>

lemmas example_defs =
  example_collaborators_def example_trainer_def example_batch_def example_network_def
  example_loss_def example_result_def example_summary_def example_result2_def
  example_whole_def example_summary2_def example_collated_def example_ddp_trainer_def
  example_summary3_def example_float_result_def example_cls_step1_def example_cls_step2_def
  example_cls_summary_def

lemmas epoch_end_defs =
  on_validation_epoch_end_def collate_outputs_def collate_scalar_def np_mean_column_def
  collate_cls_def np_vstack_def
  np_sum0_def reduce_and_report_def classification_block_def np_size_def
  classification_summary_def np_add_def np_multiply_def np_divide_where_def
  broadcast2_def global_dc_per_class_def dice_def np_nanmean_def np_mean_def

lemma example_validation_step:
  "validation_step example_collaborators example_trainer (example_batch 0)
     = ([PdbSetTrace], Inr example_result)"
  by (simp add: validation_step_def validation_step_tail_def example_defs
      split_output_def getitem_def segmentation_counts_def classification_metrics_def
      logits_metrics_def torch_argmax_dim1_def argmax_def class_counts_def broadcast2_def
      count_true_def loss_get_def upt_rec)

lemma example_epoch_end:
  "on_validation_epoch_end example_trainer [example_result]
     = Done (PdbSetTrace # report [Fin (1 / 5), Fin (2 / 7)] True, Inr example_summary)"
  by (simp add: epoch_end_defs example_defs Let_def upt_rec)

subsection \<open>What a worker can end with\<close>

lemma returns_all_gather_sum0:
  "returns (all_gather_sum0 n x ev k) r
     \<Longrightarrow> (\<exists>e. r = (ev, Inl e)) \<or> (\<exists>y. returns (k y) r)"
  by (auto simp: all_gather_sum0_def elim!: returns_CountsE returns_DoneE split: sum.splits)

lemma returns_all_gather_mean:
  "returns (all_gather_mean n x ev k) r
     \<Longrightarrow> (\<exists>e. r = (ev, Inl e)) \<or> (\<exists>y. returns (k y) r)"
  by (auto simp: all_gather_mean_def elim!: returns_LossesE returns_DoneE split: sum.splits)

lemma returns_all_gather_sum:
  "returns (all_gather_sum n x k) r \<Longrightarrow> \<exists>y. returns (k y) r"
  by (auto simp: all_gather_sum_def elim!: returns_NumberE)

lemma returns_classification_block:
  assumes "returns (classification_block self oc ev k) r"
  shows "(\<exists>e. r = (ev, Inl e)) \<or> (\<exists>cls. returns (k cls) r)"
proof (cases "c_cls oc")
  case None
  with assms show ?thesis by (auto simp: classification_block_def)
next
  case (Some cc)
  show ?thesis
  proof (cases "np_size (c_cls_tp cc) > 0")
    case False
    with assms Some show ?thesis by (auto simp: classification_block_def)
  next
    case True
    have m: "returns (case classification_summary a b c d e of
                        Inl x \<Rightarrow> Done (ev, Inl x) | Inr s \<Rightarrow> k (Some s)) r
       \<Longrightarrow> ?thesis" for a b c d e
      by (auto split: sum.splits elim!: returns_DoneE)
    show ?thesis
    proof (cases "is_ddp self")
      case False
      with assms Some True show ?thesis
        apply (simp add: classification_block_def Let_def)
        apply (erule m)
        done
    next
      case ddp: True
      from assms Some True ddp show ?thesis
        apply (simp add: classification_block_def Let_def)
        apply (drule returns_all_gather_sum0, erule disjE, blast, erule exE)+
        apply (drule returns_all_gather_sum, erule exE)+
        apply (erule m)
        done
    qed
  qed
qed

lemma returns_reduce_and_report:
  assumes "returns (reduce_and_report self oc ev tp fp fn a b c) (ev', Inr s)"
  shows "dice_per_class s = global_dc_per_class tp fp fn
       \<and> mean_fg_dice s = np_nanmean (global_dc_per_class tp fp fn)
       \<and> total_loss s = a \<and> val_seg_loss s = b \<and> val_cls_loss s = c
       \<and> (\<exists>cls. ev' = ev @ report (global_dc_per_class tp fp fn) cls)"
  using returns_classification_block[OF assms[unfolded reduce_and_report_def Let_def]]
  by (auto elim!: returns_DoneE)

lemma returns_epoch_end_events:
  assumes "returns (on_validation_epoch_end self outs) (ev, Inr s)"
  shows "PdbSetTrace \<in> set ev"
proof -
  have rr: "returns (reduce_and_report self oc [PdbSetTrace] tp fp fn a b c) (ev, Inr s)
              \<Longrightarrow> ?thesis" for oc tp fp fn a b c
    by (drule returns_reduce_and_report) auto
  show ?thesis
  proof (cases "collate_outputs outs")
    case (Inl e)
    with assms show ?thesis
      by (auto simp: on_validation_epoch_end_def elim!: returns_DoneE)
  next
    case (Inr oc)
    show ?thesis
    proof (cases "is_ddp self")
      case False
      with assms Inr show ?thesis
        apply (simp add: on_validation_epoch_end_def Let_def)
        apply (erule rr)
        done
    next
      case True
      with assms Inr show ?thesis
        apply (simp add: on_validation_epoch_end_def Let_def)
        apply (drule returns_all_gather_sum0, erule disjE, blast, erule exE)+
        apply (drule returns_all_gather_mean, erule disjE, blast, erule exE)+
        apply (erule rr)
        done
    qed
  qed
qed

subsection \<open>The validation step\<close>

lemma validation_step_tail_events:
  "validation_step_tail C self b sc = (ev, Inr r) \<Longrightarrow> ev = [PdbSetTrace]"
  by (auto simp: validation_step_tail_def Let_def split: prod.splits sum.splits option.splits)

lemma validation_step_events:
  "validation_step C self b = (ev, Inr r) \<Longrightarrow> ev = [PdbSetTrace]"
  by (auto simp: validation_step_def Let_def split: sum.splits
      dest: validation_step_tail_events)

text \<open>
  C1. The claim: the validation step and the reduction at the end of the epoch never
  enter an interactive debugger. The code does the opposite. Every validation step that
  returns a result has called \<open>pdb.set_trace()\<close> (line 268) just before, and every
  reduction that returns a summary, with or without peers and whatever the peers
  contribute, has called it (line 279) right after collating.
\<close>

theorem validation_path_enters_debugger:
  "(validation_step C self b = (ev, Inr r) \<longrightarrow> PdbSetTrace \<in> set ev)
   \<and> (returns (on_validation_epoch_end self' outs) (ev', Inr s) \<longrightarrow> PdbSetTrace \<in> set ev')"
  using validation_step_events[of C self b ev r] returns_epoch_end_events[of self' outs ev' s]
  by auto

theorem validation_path_enters_debugger_witness:
  "validation_step example_collaborators example_trainer (example_batch 0)
     = ([PdbSetTrace], Inr example_result)
   \<and> returns (on_validation_epoch_end example_trainer [example_result])
        (PdbSetTrace # report [Fin (1 / 5), Fin (2 / 7)] True, Inr example_summary)
   \<and> PdbSetTrace \<in> set [PdbSetTrace]
   \<and> PdbSetTrace \<in> set (PdbSetTrace # report [Fin (1 / 5), Fin (2 / 7)] True)"
  using validation_path_enters_debugger
          [of example_collaborators example_trainer "example_batch 0" "[PdbSetTrace]"
              example_result example_trainer "[example_result]"
              "PdbSetTrace # report [Fin (1 / 5), Fin (2 / 7)] True" example_summary]
  by (simp add: example_validation_step example_epoch_end returns_Done)

subsection \<open>The split of the network output\<close>


lemma split_output_other:
  "(\<And>kvs. output = PyDict kvs \<Longrightarrow> length kvs \<noteq> 2)
     \<Longrightarrow> split_output output = Inr (output, None)"
  by (cases "output") (simp_all add: split_output_def)





subsection \<open>Loss entries of the validation result\<close>

lemma loss_get_restrict:
  "loss_get (ld |` (- K)) k = (if k \<in> K then Float (Fin 0) else loss_get ld k)"
  by (simp add: loss_get_def restrict_map_def)

lemma segmentation_counts_loss_call_update:
  "segmentation_counts (C\<lparr>loss_call := f\<rparr>) self seg t = segmentation_counts C self seg t"
  by (cases seg) (simp_all add: segmentation_counts_def)

lemma classification_metrics_loss_call_update:
  "classification_metrics (C\<lparr>loss_call := f\<rparr>) c ct = classification_metrics C c ct"
  by (cases c) (simp_all add: classification_metrics_def)

text \<open>
  C10. Take any loss functor and the one that returns the same mapping without the keys
  of a set \<open>K\<close>. Whenever the validation step returns a result with the first, it
  returns one with the second, after the same effects: nothing is raised for a missing
  key. The entries \<open>loss\<close>, \<open>seg_loss\<close> and \<open>cls_loss\<close> are 0.0 where
  \<open>total_loss\<close>, \<open>seg_loss\<close> and \<open>cls_loss\<close> were taken away and are what
  they were otherwise; the count arrays and the classification entries are the same.
\<close>

theorem validation_step_missing_loss_keys:
  assumes "validation_step C self b = (ev, Inr r)"
  shows "\<exists>r'. validation_step
               (C\<lparr>loss_call := \<lambda>sw cw s t c ct.
                     case loss_call C sw cw s t c ct of
                       Inl e \<Rightarrow> Inl e
                     | Inr ld \<Rightarrow> Inr (ld |` (- K))\<rparr>) self b = (ev, Inr r')
            \<and> loss r' = (if ''total_loss'' \<in> K then Float (Fin 0) else loss r)
            \<and> seg_loss r' = (if ''seg_loss'' \<in> K then Float (Fin 0) else seg_loss r)
            \<and> cls_loss r' = (if ''cls_loss'' \<in> K then Float (Fin 0) else cls_loss r)
            \<and> tp_hard r' = tp_hard r \<and> fp_hard r' = fp_hard r \<and> fn_hard r' = fn_hard r
            \<and> cls_metrics r' = cls_metrics r"
proof -
  let ?C' = "C\<lparr>loss_call := \<lambda>sw cw s t c ct.
                  case loss_call C sw cw s t c ct of
                    Inl e \<Rightarrow> Inl e
                  | Inr ld \<Rightarrow> Inr (ld |` (- K))\<rparr>"
  let ?sw = "loss_seg_weight self" and ?cw = "loss_cls_weight self"
  from assms obtain seg cls
    where sc: "split_output (network C (params self) (data b)) = Inr (seg, cls)"
      and t: "validation_step_tail C self b (seg, cls) = (ev, Inr r)"
    by (auto simp: validation_step_def Let_def split: sum.splits)
  let ?cm = "case cls of
               None \<Rightarrow> Inr None
             | Some c \<Rightarrow>
                 (case classification_metrics C c (class_target b) of
                    Inl e \<Rightarrow> Inl e
                  | Inr m \<Rightarrow> Inr (Some m))"
  from t obtain ld
    where ld: "loss_call C ?sw ?cw seg (target b) cls (class_target b) = Inr ld"
    by (cases "loss_call C ?sw ?cw seg (target b) cls (class_target b)")
       (simp_all add: validation_step_tail_def)
  from t ld obtain tp fp fn
    where cnt: "segmentation_counts C self seg (target b) = Inr (tp, fp, fn)"
    by (cases "segmentation_counts C self seg (target b)")
       (auto simp: validation_step_tail_def)
  from t ld cnt obtain cm where cm: "?cm = Inr cm"
    by (cases ?cm) (simp_all add: validation_step_tail_def Let_def)
  let ?r = "\<lambda>d. \<lparr>loss = loss_get d ''total_loss'', seg_loss = loss_get d ''seg_loss'',
                  cls_loss = loss_get d ''cls_loss'',
                  tp_hard = tp, fp_hard = fp, fn_hard = fn, cls_metrics = cm\<rparr>"
  from t ld cnt cm have r: "ev = [PdbSetTrace]" "r = ?r ld"
    by (simp_all add: validation_step_tail_def Let_def)
  from sc ld cnt cm have "validation_step ?C' self b = ([PdbSetTrace], Inr (?r (ld |` (- K))))"
    by (cases cls)
       (simp_all add: validation_step_def validation_step_tail_def Let_def
          segmentation_counts_loss_call_update classification_metrics_loss_call_update)
  then show ?thesis
    by (simp add: r loss_get_restrict)
qed

theorem validation_step_missing_loss_keys_witness:
  "validation_step example_collaborators example_trainer (example_batch 0)
      = ([PdbSetTrace], Inr example_result)
   \<and> validation_step
        (example_collaborators\<lparr>loss_call := \<lambda>sw cw s t c ct.
            case loss_call example_collaborators sw cw s t c ct of
              Inl e \<Rightarrow> Inl e
            | Inr ld \<Rightarrow> Inr (ld |` (- {''total_loss'', ''cls_loss''}))\<rparr>)
        example_trainer (example_batch 0)
      = ([PdbSetTrace],
         Inr (example_result\<lparr>loss := Float (Fin 0), cls_loss := Float (Fin 0)\<rparr>))"
proof -
  from validation_step_missing_loss_keys[OF example_validation_step,
         of "{''total_loss'', ''cls_loss''}"]
  obtain r' where
    "validation_step
        (example_collaborators\<lparr>loss_call := \<lambda>sw cw s t c ct.
            case loss_call example_collaborators sw cw s t c ct of
              Inl e \<Rightarrow> Inl e
            | Inr ld \<Rightarrow> Inr (ld |` (- {''total_loss'', ''cls_loss''}))\<rparr>)
        example_trainer (example_batch 0) = ([PdbSetTrace], Inr r')"
    and "loss r' = Float (Fin 0)" and "seg_loss r' = seg_loss example_result"
    and "cls_loss r' = Float (Fin 0)" and "tp_hard r' = tp_hard example_result"
    and "fp_hard r' = fp_hard example_result" and "fn_hard r' = fn_hard example_result"
    and "cls_metrics r' = cls_metrics example_result"
    by auto
  moreover from this have
    "r' = example_result\<lparr>loss := Float (Fin 0), cls_loss := Float (Fin 0)\<rparr>"
    by (cases r') (simp add: example_result_def)
  ultimately show ?thesis
    by (simp add: example_validation_step)
qed

subsection \<open>The ramp of the classification weight\<close>

lemma train_step_tail_keeps_weights:
  "train_step_tail C self b sc = Inr (l, self')
     \<Longrightarrow> loss_cls_weight self' = loss_cls_weight self"
  by (auto simp: train_step_tail_def split: prod.splits sum.splits option.splits loss_entry.splits)

lemma train_step_keeps_weights:
  "train_step C self b = Inr (l, self') \<Longrightarrow> loss_cls_weight self' = loss_cls_weight self"
  by (auto simp: train_step_def Let_def split: sum.splits dest: train_step_tail_keeps_weights)

lemma train_step_agree:
  assumes "\<forall>sw s t c ct. f sw (loss_cls_weight self) s t c ct = g sw (loss_cls_weight self) s t c ct"
  shows "train_step (C\<lparr>loss_call := f\<rparr>) self b = train_step (C\<lparr>loss_call := g\<rparr>) self b"
  using assms by (simp add: train_step_def train_step_tail_def Let_def
      split: sum.splits prod.splits option.splits loss_entry.splits)

lemma train_steps_agree:
  assumes "\<forall>sw s t c ct. f sw (loss_cls_weight self) s t c ct = g sw (loss_cls_weight self) s t c ct"
  shows "train_steps (C\<lparr>loss_call := f\<rparr>) self bs = train_steps (C\<lparr>loss_call := g\<rparr>) self bs"
  using assms
proof (induction bs arbitrary: self)
  case Nil
  show ?case by simp
next
  case (Cons b bs)
  have eq: "train_step (C\<lparr>loss_call := f\<rparr>) self b = train_step (C\<lparr>loss_call := g\<rparr>) self b"
    using Cons.prems by (rule train_step_agree)
  show ?case
  proof (cases "train_step (C\<lparr>loss_call := g\<rparr>) self b")
    case (Inl e)
    with eq show ?thesis by simp
  next
    case (Inr p)
    obtain l self' where p: "p = (l, self')" by (cases p)
    from Inr p have "loss_cls_weight self' = loss_cls_weight self"
      by (auto dest: train_step_keeps_weights)
    with Cons.prems have "train_steps (C\<lparr>loss_call := f\<rparr>) self' bs
        = train_steps (C\<lparr>loss_call := g\<rparr>) self' bs"
      by (intro Cons.IH) simp
    with eq Inr p show ?thesis by simp
  qed
qed

lemma on_train_epoch_start_weight:
  "super_on_train_epoch_start C self = self1 \<Longrightarrow> current_epoch self1 = Some e
     \<Longrightarrow> loss_cls_weight (on_train_epoch_start C self)
           = cls_weight self1 * min (of_int e / 100) 1"
  by (auto simp: on_train_epoch_start_def Let_def)

text \<open>
  C6. Let the base class's hook leave the trainer with the epoch index \<open>e\<close> and the
  configured weight \<open>cls_weight\<close>. Then the hook leaves the loss functor with the
  classification weight \<open>cls_weight * min (e / 100) 1\<close>: 0 at epoch 0, half the
  configured weight at epoch 50, the configured weight from epoch 100 on. The training
  steps of the epoch come after the hook and read that weight: two loss functors that
  agree at this classification weight give the same epoch.
\<close>

theorem on_train_epoch_start_ramps_cls_weight:
  fixes C :: "('t, 'p) collaborators"
  assumes "super_on_train_epoch_start C self = self1" and "current_epoch self1 = Some e"
  shows "loss_cls_weight (on_train_epoch_start C self)
           = cls_weight self1 * min (of_int e / 100) 1
       \<and> (e = 0 \<longrightarrow> loss_cls_weight (on_train_epoch_start C self) = 0)
       \<and> (e = 50 \<longrightarrow> loss_cls_weight (on_train_epoch_start C self) = cls_weight self1 / 2)
       \<and> (100 \<le> e \<longrightarrow> loss_cls_weight (on_train_epoch_start C self) = cls_weight self1)
       \<and> (\<forall>f g. (\<forall>sw s t c ct.
                     f sw (cls_weight self1 * min (of_int e / 100) 1) s t c ct
                       = g sw (cls_weight self1 * min (of_int e / 100) 1) s t c ct)
                 \<longrightarrow> train_epoch (C\<lparr>loss_call := f\<rparr>) self bs
                       = train_epoch (C\<lparr>loss_call := g\<rparr>) self bs)"
proof (intro conjI allI impI)
  note w = on_train_epoch_start_weight[OF assms]
  show "loss_cls_weight (on_train_epoch_start C self)
           = cls_weight self1 * min (of_int e / 100) 1"
    by (rule w)
  show "loss_cls_weight (on_train_epoch_start C self) = 0" if "e = 0"
    using that by (simp add: w)
  show "loss_cls_weight (on_train_epoch_start C self) = cls_weight self1 / 2" if "e = 50"
    using that by (simp add: w)
  show "loss_cls_weight (on_train_epoch_start C self) = cls_weight self1" if "100 \<le> e"
  proof -
    from that have "(1::rat) \<le> of_int e / 100" by simp
    then show ?thesis by (simp add: w min_def)
  qed
next
  fix f g :: "rat \<Rightarrow> rat \<Rightarrow> 't pyobj \<Rightarrow> 't \<Rightarrow> 't pyobj option \<Rightarrow> int list
                \<Rightarrow> py_error + loss_dict"
  assume a: "\<forall>sw s t c ct.
                f sw (cls_weight self1 * min (of_int e / 100) 1) s t c ct
                  = g sw (cls_weight self1 * min (of_int e / 100) 1) s t c ct"
  have h: "on_train_epoch_start (C\<lparr>loss_call := f\<rparr>) self
         = on_train_epoch_start (C\<lparr>loss_call := g\<rparr>) self"
    by (simp add: on_train_epoch_start_def)
  from assms(1) have "super_on_train_epoch_start (C\<lparr>loss_call := g\<rparr>) self = self1"
    by simp
  then have "loss_cls_weight (on_train_epoch_start (C\<lparr>loss_call := g\<rparr>) self)
          = cls_weight self1 * min (of_int e / 100) 1"
    using assms(2) by (rule on_train_epoch_start_weight)
  with a show "train_epoch (C\<lparr>loss_call := f\<rparr>) self bs
                = train_epoch (C\<lparr>loss_call := g\<rparr>) self bs"
    unfolding train_epoch_def h by (intro train_steps_agree) simp
qed

theorem on_train_epoch_start_ramps_cls_weight_witness:
  "super_on_train_epoch_start example_collaborators example_trainer = example_trainer
   \<and> current_epoch example_trainer = Some 50
   \<and> loss_cls_weight (on_train_epoch_start example_collaborators example_trainer) = 1 / 4
   \<and> train_epoch (example_collaborators\<lparr>loss_call := example_loss\<rparr>) example_trainer
         [example_batch 0, example_batch 1]
       = train_epoch (example_collaborators\<lparr>loss_call := \<lambda>sw cw. example_loss sw (1 / 4)\<rparr>)
           example_trainer [example_batch 0, example_batch 1]
   \<and> train_epoch example_collaborators example_trainer [example_batch 0, example_batch 1]
       = Inr ([[''loss'' \<mapsto> TorchTensor (Fin (5 / 4)),
                ''total_loss'' \<mapsto> TorchTensor (Fin (5 / 4)),
                ''seg_loss'' \<mapsto> TorchTensor (Fin 1), ''cls_loss'' \<mapsto> TorchTensor (Fin 1)],
               [''loss'' \<mapsto> TorchTensor (Fin (5 / 4)),
                ''total_loss'' \<mapsto> TorchTensor (Fin (5 / 4)),
                ''seg_loss'' \<mapsto> TorchTensor (Fin 1), ''cls_loss'' \<mapsto> TorchTensor (Fin 1)]],
              example_trainer\<lparr>loss_cls_weight := 1 / 4\<rparr>)"
proof -
  have u: "super_on_train_epoch_start example_collaborators example_trainer = example_trainer"
    by (simp add: example_collaborators_def)
  have e: "current_epoch example_trainer = Some 50"
    by (simp add: example_trainer_def)
  have c: "cls_weight example_trainer = 1 / 2"
    by (simp add: example_trainer_def)
  note t = on_train_epoch_start_ramps_cls_weight
             [OF u e, of "[example_batch 0, example_batch 1]"]
  from t c have w: "loss_cls_weight (on_train_epoch_start example_collaborators example_trainer) = 1 / 4"
    by simp
  note ag = t[THEN conjunct2, THEN conjunct2, THEN conjunct2, THEN conjunct2]
  note ag' = ag[THEN spec[of _ example_loss],
                THEN spec[of _ "\<lambda>sw cw. example_loss sw (1 / 4)"]]
  from ag' have a: "train_epoch (example_collaborators\<lparr>loss_call := example_loss\<rparr>) example_trainer
         [example_batch 0, example_batch 1]
       = train_epoch (example_collaborators\<lparr>loss_call := \<lambda>sw cw. example_loss sw (1 / 4)\<rparr>)
           example_trainer [example_batch 0, example_batch 1]"
    by (simp add: c)
  have r: "train_epoch example_collaborators example_trainer [example_batch 0, example_batch 1]
       = Inr ([[''loss'' \<mapsto> TorchTensor (Fin (5 / 4)),
                ''total_loss'' \<mapsto> TorchTensor (Fin (5 / 4)),
                ''seg_loss'' \<mapsto> TorchTensor (Fin 1), ''cls_loss'' \<mapsto> TorchTensor (Fin 1)],
               [''loss'' \<mapsto> TorchTensor (Fin (5 / 4)),
                ''total_loss'' \<mapsto> TorchTensor (Fin (5 / 4)),
                ''seg_loss'' \<mapsto> TorchTensor (Fin 1), ''cls_loss'' \<mapsto> TorchTensor (Fin 1)]],
              example_trainer\<lparr>loss_cls_weight := 1 / 4\<rparr>)"
    by (simp add: train_epoch_def on_train_epoch_start_def train_step_def train_step_tail_def
        split_output_def getitem_def example_defs Let_def)
  from u e w a r show ?thesis by blast
qed

subsection \<open>The classification counts of a batch\<close>

lemma argmax_from_range:
  "argmax_from best bi i xs = bi
   \<or> (i \<le> argmax_from best bi i xs \<and> argmax_from best bi i xs < i + length xs)"
proof (induction xs arbitrary: best bi i)
  case Nil
  show ?case by simp
next
  case (Cons x xs)
  from Cons.IH[of x i "Suc i"] Cons.IH[of best bi "Suc i"] show ?case
    by auto
qed

lemma argmax_less: "row \<noteq> [] \<Longrightarrow> argmax row < length row"
  using argmax_from_range[of "hd row" 0 1 "tl row"]
  by (cases row) (auto simp: argmax_def)

lemma count_true_Cons: "count_true (x # xs) = (if x then 1 else 0) + count_true xs"
  by (simp add: count_true_def)

lemma count_true_Nil: "count_true [] = 0"
  by (simp add: count_true_def)

lemma count_true_four:
  "count_true (map (\<lambda>(p, t). p \<and> t) pt) + count_true (map (\<lambda>(p, t). p \<and> \<not> t) pt)
   + count_true (map (\<lambda>(p, t). \<not> p \<and> t) pt) + count_true (map (\<lambda>(p, t). \<not> p \<and> \<not> t) pt)
   = length pt"
  by (induction pt) (auto simp: count_true_Cons count_true_Nil)

lemma broadcast2_equal_lengths:
  "length xs = length ys \<Longrightarrow> broadcast2 xs ys = Inr (zip xs ys)"
  by (simp add: broadcast2_def)

lemma class_counts_equal_lengths:
  assumes "length cls_pred = length cls_target"
  shows "class_counts cls_pred cls_target k =
           Inr (count_true (map (\<lambda>(p, t). p = int k \<and> t = int k) (zip cls_pred cls_target)),
                count_true (map (\<lambda>(p, t). p = int k \<and> t \<noteq> int k) (zip cls_pred cls_target)),
                count_true (map (\<lambda>(p, t). p \<noteq> int k \<and> t = int k) (zip cls_pred cls_target)),
                count_true (map (\<lambda>(p, t). p \<noteq> int k \<and> t \<noteq> int k) (zip cls_pred cls_target)))"
  using assms
  by (simp add: class_counts_def broadcast2_equal_lengths zip_map_map split_def o_def)

lemma class_loop_equal_lengths:
  assumes "length cls_pred = length cls_target"
  shows "class_loop cls_pred cls_target ks =
           Inr (map (\<lambda>k.
             (count_true (map (\<lambda>(p, t). p = int k \<and> t = int k) (zip cls_pred cls_target)),
              count_true (map (\<lambda>(p, t). p = int k \<and> t \<noteq> int k) (zip cls_pred cls_target)),
              count_true (map (\<lambda>(p, t). p \<noteq> int k \<and> t = int k) (zip cls_pred cls_target)),
              count_true (map (\<lambda>(p, t). p \<noteq> int k \<and> t \<noteq> int k) (zip cls_pred cls_target)))) ks)"
  by (induction ks) (simp_all add: class_counts_equal_lengths[OF assms])

lemma sum_true_positives:
  assumes "\<forall>(p, t) \<in> set pt. 0 \<le> p \<and> p < int c"
  shows "sum_list (map (\<lambda>k. count_true (map (\<lambda>(p, t). p = int k \<and> t = int k) pt)) [0..<c])
         = count_true (map (\<lambda>(p, t). p = t) pt)"
  using assms
proof (induction pt)
  case Nil
  show ?case by (simp add: count_true_Nil)
next
  case (Cons x pt)
  obtain p t where x: "x = (p, t)" by (cases x)
  from Cons.prems x have p: "0 \<le> p" "p < int c" by auto
  have one: "(\<Sum>k\<leftarrow>[0..<c]. if p = int k \<and> t = int k then 1 else 0) = (if p = t then 1 else (0::nat))"
  proof -
    have "(\<Sum>k\<leftarrow>[0..<c]. if p = int k \<and> t = int k then 1 else (0::nat))
          = (\<Sum>k\<in>{0..<c}. if k = nat p then (if p = t then 1 else 0) else 0)"
      unfolding interv_sum_list_conv_sum_set_nat using p
      by (intro sum.cong) auto
    also have "\<dots> = (if p = t then 1 else 0)"
    proof -
      from p have "nat p \<in> {0..<c}" by auto
      then show ?thesis by (simp only: sum.delta finite_atLeastLessThan if_True)
    qed
    finally show ?thesis .
  qed
  from Cons have "sum_list (map (\<lambda>k. count_true (map (\<lambda>(p, t). p = int k \<and> t = int k) pt)) [0..<c])
         = count_true (map (\<lambda>(p, t). p = t) pt)"
    by simp
  with one show ?case
    by (simp add: x count_true_Cons sum_list_addf)
qed

lemma classification_metrics_Logits:
  assumes c: "0 < c" and rows: "\<forall>row \<in> set rows. length row = c"
    and len: "length rows = length tgt"
  shows "\<exists>m. classification_metrics C (Logits c rows) tgt = Inr m
           \<and> length (cls_tp m) = c \<and> length (cls_fp m) = c
           \<and> length (cls_fn m) = c \<and> length (cls_tn m) = c
           \<and> (\<forall>i<c. cls_tp m ! i + cls_fp m ! i + cls_fn m ! i + cls_tn m ! i = length tgt)
           \<and> sum_list (cls_tp m) = cls_correct m
           \<and> cls_total m = length tgt"
proof -
  let ?pred = "map (\<lambda>r. int (argmax r)) rows"
  have lp: "length ?pred = length tgt" using len by simp
  have rng: "\<forall>(p, t) \<in> set (zip ?pred tgt). 0 \<le> p \<and> p < int c"
  proof (clarify)
    fix p t assume "(p, t) \<in> set (zip ?pred tgt)"
    then have "p \<in> set ?pred" by (rule set_zip_leftD)
    then obtain r where "r \<in> set rows" "p = int (argmax r)" by auto
    with rows c argmax_less[of r] show "0 \<le> p \<and> p < int c" by auto
  qed
  have four: "\<And>k. count_true (map (\<lambda>(p, t). p = int k \<and> t = int k) (zip ?pred tgt))
     + count_true (map (\<lambda>(p, t). p = int k \<and> t \<noteq> int k) (zip ?pred tgt))
     + count_true (map (\<lambda>(p, t). p \<noteq> int k \<and> t = int k) (zip ?pred tgt))
     + count_true (map (\<lambda>(p, t). p \<noteq> int k \<and> t \<noteq> int k) (zip ?pred tgt)) = length tgt"
  proof -
    fix k
    show "?thesis k"
      using count_true_four[of "map (\<lambda>(p, t). (p = int k, t = int k)) (zip ?pred tgt)"] lp
      by (simp add: o_def split_def)
  qed
  show ?thesis
    using c sum_true_positives[OF rng] four
    by (simp add: classification_metrics_def logits_metrics_def torch_argmax_dim1_def
        class_loop_equal_lengths[OF lp] broadcast2_equal_lengths[OF lp] o_def split_def)
qed

lemma classification_metrics_no_classes:
  "classification_metrics C (Logits 0 rows) tgt = Inl IndexError"
  by (simp add: classification_metrics_def logits_metrics_def torch_argmax_dim1_def)

lemma validation_step_tail_cls_metrics:
  assumes "validation_step_tail C self b (seg, Some c) = (ev, Inr r)"
  shows "\<exists>m. classification_metrics C c (class_target b) = Inr m \<and> cls_metrics r = Some m"
proof (cases "classification_metrics C c (class_target b)")
  case (Inl e)
  with assms show ?thesis
    by (auto simp: validation_step_tail_def Let_def split: sum.splits prod.splits)
next
  case (Inr m)
  with assms show ?thesis
    by (auto simp: validation_step_tail_def Let_def split: sum.splits prod.splits)
qed

text \<open>
  C9. Let the validation step return a result for a batch whose classification
  prediction is a logits tensor of shape [batch, c] with one row a sample. Then the
  result has the four count arrays, of length \<open>c\<close>; for every class index the four
  counts add up to the number of samples of the batch; and the true positives of all
  classes add up to \<open>cls_correct\<close>.
\<close>

theorem validation_step_classification_counts:
  assumes "validation_step (C :: ('t, 'p) collaborators) self b = (ev, Inr r)"
    and "split_output (network C (params self) (data b)) = Inr (seg, Some (Logits c rows))"
    and "\<forall>row \<in> set rows. length row = c"
    and "length rows = length (class_target b)"
  shows "\<exists>m. cls_metrics r = Some m
           \<and> length (cls_tp m) = c \<and> length (cls_fp m) = c
           \<and> length (cls_fn m) = c \<and> length (cls_tn m) = c
           \<and> (\<forall>i<c. cls_tp m ! i + cls_fp m ! i + cls_fn m ! i + cls_tn m ! i
                       = length (class_target b))
           \<and> sum_list (cls_tp m) = cls_correct m
           \<and> cls_total m = length (class_target b)"
proof -
  from assms(1,2) have t: "validation_step_tail C self b (seg, Some (Logits c rows)) = (ev, Inr r)"
    by (simp add: validation_step_def)
  from validation_step_tail_cls_metrics[OF t] obtain m
    where m: "classification_metrics C (Logits c rows) (class_target b) = Inr m"
      and r: "cls_metrics r = Some m"
    by blast
  from m have "0 < c"
    by (cases c) (simp_all add: classification_metrics_no_classes)
  from classification_metrics_Logits[OF this assms(3,4), of C] obtain m'
    where m': "classification_metrics C (Logits c rows) (class_target b) = Inr m'"
      and p: "length (cls_tp m') = c" "length (cls_fp m') = c"
             "length (cls_fn m') = c" "length (cls_tn m') = c"
             "\<forall>i<c. cls_tp m' ! i + cls_fp m' ! i + cls_fn m' ! i + cls_tn m' ! i
                       = length (class_target b)"
             "sum_list (cls_tp m') = cls_correct m'"
             "cls_total m' = length (class_target b)"
    by blast
  from m m' have "m' = m" by simp
  with p r show ?thesis by blast
qed

theorem validation_step_classification_counts_witness:
  "validation_step example_collaborators example_trainer (example_batch 0)
     = ([PdbSetTrace], Inr example_result)
   \<and> split_output (network example_collaborators (params example_trainer)
                     (data (example_batch 0)))
     = Inr (Tensor 0, Some (Logits 2 [[1, 2], [3, 1], [0, 0]]))
   \<and> length [1, 2 :: rat] = 2 \<and> length [3, 1 :: rat] = 2 \<and> length [0, 0 :: rat] = 2
   \<and> length [[1, 2], [3, 1], [0, 0 :: rat]] = length (class_target (example_batch 0))
   \<and> (\<exists>m. cls_metrics example_result = Some m
         \<and> (\<forall>i<2. cls_tp m ! i + cls_fp m ! i + cls_fn m ! i + cls_tn m ! i = 3)
         \<and> sum_list (cls_tp m) = cls_correct m)"
proof -
  have s: "split_output (network example_collaborators (params example_trainer)
                     (data (example_batch 0)))
     = Inr (Tensor 0, Some (Logits 2 [[1, 2], [3, 1], [0, 0]]))"
    by (simp add: example_defs split_output_def getitem_def)
  have w: "\<forall>row \<in> set [[1, 2], [3, 1], [0, 0 :: rat]]. length row = 2"
    by simp
  have l: "length [[1, 2], [3, 1], [0, 0 :: rat]] = length (class_target (example_batch 0))"
    by (simp add: example_defs)
  have n: "length (class_target (example_batch 0)) = 3"
    by (simp add: example_defs)
  from validation_step_classification_counts[OF example_validation_step s w l]
  have "\<exists>m. cls_metrics example_result = Some m
         \<and> (\<forall>i<2. cls_tp m ! i + cls_fp m ! i + cls_fn m ! i + cls_tn m ! i = 3)
         \<and> sum_list (cls_tp m) = cls_correct m"
    unfolding n by blast
  with example_validation_step s l show ?thesis
    by simp
qed

subsection \<open>Dice of the aggregated counts\<close>

lemma fin_values_map_Fin: "fin_values (map Fin xs) = xs"
  by (induction xs) simp_all

lemma fin_values_dice:
  "fin_values (map (\<lambda>i. dice (tp ! i) (fp ! i) (fn ! i)) is)
   = map (\<lambda>i. of_nat (2 * tp ! i) / of_nat (2 * tp ! i + fp ! i + fn ! i))
       (filter (\<lambda>i. 2 * tp ! i + fp ! i + fn ! i \<noteq> 0) is)"
  by (induction "is") (simp_all add: dice_def)

lemma global_dc_per_class_nth:
  assumes "length tp = length fp" "length fp = length fn"
  shows "global_dc_per_class tp fp fn = map (\<lambda>i. dice (tp ! i) (fp ! i) (fn ! i)) [0..<length tp]"
  using assms by (intro nth_equalityI) (simp_all add: global_dc_per_class_def)

text \<open>
  C4. \<open>reduce_and_report\<close> is \<open>on_validation_epoch_end\<close> from line 320 on; its
  arguments \<open>tp\<close>, \<open>fp\<close>, \<open>fn\<close> are the aggregated count arrays, summed over the
  steps and, in a distributed run, over the workers. For arrays of one length, every
  summary it returns has, for each class, the Dice \<open>2 tp / (2 tp + fp + fn)\<close> when the
  denominator is not zero and not-a-number when it is, and as mean foreground Dice the
  mean of the Dice of the classes with a denominator that is not zero (not-a-number
  when there is no such class).
\<close>

theorem reduction_dice_per_class:
  assumes "length tp = length fp" and "length fp = length fn"
    and "returns (reduce_and_report self oc ev tp fp fn a b c) (ev', Inr s)"
  shows "length (dice_per_class s) = length tp
       \<and> (\<forall>i<length tp.
             dice_per_class s ! i =
               (if 2 * tp ! i + fp ! i + fn ! i = 0 then NaN
                else Fin (of_nat (2 * tp ! i) / of_nat (2 * tp ! i + fp ! i + fn ! i))))
       \<and> mean_fg_dice s =
           (let valid = filter (\<lambda>i. 2 * tp ! i + fp ! i + fn ! i \<noteq> 0) [0..<length tp]
            in if valid = [] then NaN
               else Fin (sum_list (map (\<lambda>i. of_nat (2 * tp ! i)
                                              / of_nat (2 * tp ! i + fp ! i + fn ! i)) valid)
                         / of_nat (length valid)))"
proof -
  note d = global_dc_per_class_nth[OF assms(1,2)]
  from returns_reduce_and_report[OF assms(3)]
  have s: "dice_per_class s = map (\<lambda>i. dice (tp ! i) (fp ! i) (fn ! i)) [0..<length tp]"
    and m: "mean_fg_dice s = np_nanmean (map (\<lambda>i. dice (tp ! i) (fp ! i) (fn ! i)) [0..<length tp])"
    by (simp_all add: d)
  have "length (dice_per_class s) = length tp"
    by (simp add: s)
  moreover have "\<forall>i<length tp.
             dice_per_class s ! i =
               (if 2 * tp ! i + fp ! i + fn ! i = 0 then NaN
                else Fin (of_nat (2 * tp ! i) / of_nat (2 * tp ! i + fp ! i + fn ! i)))"
    by (simp add: s dice_def)
  moreover have "mean_fg_dice s =
           (let valid = filter (\<lambda>i. 2 * tp ! i + fp ! i + fn ! i \<noteq> 0) [0..<length tp]
            in if valid = [] then NaN
               else Fin (sum_list (map (\<lambda>i. of_nat (2 * tp ! i)
                                              / of_nat (2 * tp ! i + fp ! i + fn ! i)) valid)
                         / of_nat (length valid)))"
    unfolding m np_nanmean_def fin_values_dice by (simp add: Let_def)
  ultimately show ?thesis by blast
qed

lemma example_epoch_end_reduce:
  "on_validation_epoch_end example_trainer [example_result]
     = reduce_and_report example_trainer
         \<lparr>c_loss = Stack [Fin (3 / 2)], c_seg_loss = Stack [Fin 1],
          c_cls_loss = Stack [Fin 1],
          c_tp_hard = [[1, 2]], c_fp_hard = [[3, 4]], c_fn_hard = [[5, 6]],
          c_cls = Some \<lparr>c_cls_tp = [[1, 1]], c_cls_fp = [[1, 0]], c_cls_fn = [[0, 1]],
                         c_cls_tn = [[1, 1]], c_cls_correct = [2], c_cls_total = [3]\<rparr>\<rparr>
         [PdbSetTrace] [1, 2] [3, 4] [5, 6] (Fin (3 / 2)) (Fin 1) (Fin 1)"
  by (simp add: on_validation_epoch_end_def collate_outputs_def collate_scalar_def
      np_mean_column_def collate_cls_def np_vstack_def np_sum0_def np_mean_def example_defs
      Let_def upt_rec)

theorem reduction_dice_per_class_witness:
  "length [1, 2 :: nat] = length [3, 4 :: nat] \<and> length [3, 4 :: nat] = length [5, 6 :: nat]
   \<and> returns (on_validation_epoch_end example_trainer [example_result])
        (PdbSetTrace # report [Fin (1 / 5), Fin (2 / 7)] True, Inr example_summary)
   \<and> dice_per_class example_summary ! 0 = Fin (1 / 5)
   \<and> dice_per_class example_summary ! 1 = Fin (2 / 7)
   \<and> mean_fg_dice example_summary = Fin (17 / 70)"
proof -
  have r: "returns (on_validation_epoch_end example_trainer [example_result])
        (PdbSetTrace # report [Fin (1 / 5), Fin (2 / 7)] True, Inr example_summary)"
    by (simp add: example_epoch_end returns_Done)
  have l: "length [1, 2 :: nat] = length [3, 4 :: nat]" "length [3, 4 :: nat] = length [5, 6 :: nat]"
    by simp_all
  note t = reduction_dice_per_class[OF l r[unfolded example_epoch_end_reduce]]
  from t have "dice_per_class example_summary ! 0 = Fin (1 / 5)"
    and "dice_per_class example_summary ! 1 = Fin (2 / 7)"
    and "mean_fg_dice example_summary = Fin (17 / 70)"
    by (simp_all add: upt_rec)
  with r l show ?thesis by blast
qed

subsection \<open>The classification summary\<close>

lemma np_add_same_length:
  "length a = length b \<Longrightarrow> np_add a b = Inr (map (\<lambda>i. a ! i + b ! i) [0..<length a])"
  by (auto simp: np_add_def broadcast2_equal_lengths intro!: nth_equalityI)

lemma np_multiply_same_length:
  "length a = length b \<Longrightarrow> np_multiply a b = Inr (map (\<lambda>i. a ! i * b ! i) [0..<length a])"
  by (auto simp: np_multiply_def broadcast2_equal_lengths intro!: nth_equalityI)

lemma np_divide_where_same_length:
  "length a = length b \<Longrightarrow>
   np_divide_where a b (length a)
     = Inr (map (\<lambda>i. if b ! i \<noteq> 0 then a ! i / b ! i else 0) [0..<length a])"
  by (auto simp: np_divide_where_def broadcast2_equal_lengths intro!: nth_equalityI)

lemma classification_summary_same_length:
  assumes "length tp = length fp" and "length fp = length fn"
  shows "classification_summary tp fp fn n_correct n_total =
     (let n = length tp;
          p = map (\<lambda>i. if tp ! i + fp ! i = 0 then 0
                         else of_nat (tp ! i) / of_nat (tp ! i + fp ! i)) [0..<n];
          r = map (\<lambda>i. if tp ! i + fn ! i = 0 then 0
                         else of_nat (tp ! i) / of_nat (tp ! i + fn ! i)) [0..<n];
          f = map (\<lambda>i. if p ! i + r ! i = 0 then 0
                         else 2 * p ! i * r ! i / (p ! i + r ! i)) [0..<n]
      in Inr \<lparr>cls_accuracy = (if n_total = 0 then 0 else of_nat n_correct / of_nat n_total),
              cls_precision_per_class = p, cls_recall_per_class = r, cls_f1_per_class = f,
              cls_macro_precision = np_nanmean (map Fin p),
              cls_macro_recall = np_nanmean (map Fin r),
              cls_macro_f1 = np_nanmean (map Fin f)\<rparr>)"
proof -
  let ?n = "length tp"
  let ?tp = "map rat_of_nat tp" and ?fp = "map rat_of_nat fp" and ?fn = "map rat_of_nat fn"
  let ?p = "map (\<lambda>i. if tp ! i + fp ! i = 0 then 0
                         else rat_of_nat (tp ! i) / of_nat (tp ! i + fp ! i)) [0..<?n]"
  let ?r = "map (\<lambda>i. if tp ! i + fn ! i = 0 then 0
                         else rat_of_nat (tp ! i) / of_nat (tp ! i + fn ! i)) [0..<?n]"
  let ?f = "map (\<lambda>i. if ?p ! i + ?r ! i = 0 then 0
                         else 2 * ?p ! i * ?r ! i / (?p ! i + ?r ! i)) [0..<?n]"
  have l: "length ?tp = length ?fp" "length ?tp = length ?fn" "length ?tp = ?n"
    using assms by simp_all
  have a1: "np_add ?tp ?fp = Inr (map (\<lambda>i. rat_of_nat (tp ! i + fp ! i)) [0..<?n])"
    using assms by (simp add: np_add_same_length)
  have p: "np_divide_where ?tp (map (\<lambda>i. rat_of_nat (tp ! i + fp ! i)) [0..<?n]) (length ?tp) = Inr ?p"
    using assms
    by (subst np_divide_where_same_length) (auto simp del: of_nat_add simp: of_nat_eq_0_iff)
  have a2: "np_add ?tp ?fn = Inr (map (\<lambda>i. rat_of_nat (tp ! i + fn ! i)) [0..<?n])"
    using assms by (simp add: np_add_same_length)
  have r: "np_divide_where ?tp (map (\<lambda>i. rat_of_nat (tp ! i + fn ! i)) [0..<?n]) (length ?tp) = Inr ?r"
    using assms
    by (subst np_divide_where_same_length) (auto simp del: of_nat_add simp: of_nat_eq_0_iff)
  have lp: "length ?p = ?n" "length ?r = ?n" by simp_all
  have m: "np_multiply (map (\<lambda>p. 2 * p) ?p) ?r = Inr (map (\<lambda>i. 2 * ?p ! i * ?r ! i) [0..<?n])"
    by (subst np_multiply_same_length) (simp_all del: upt_Suc)
  have a3: "np_add ?p ?r = Inr (map (\<lambda>i. ?p ! i + ?r ! i) [0..<?n])"
    by (subst np_add_same_length) (simp_all del: upt_Suc)
  have f: "np_divide_where (map (\<lambda>i. 2 * ?p ! i * ?r ! i) [0..<?n])
             (map (\<lambda>i. ?p ! i + ?r ! i) [0..<?n]) (length ?p) = Inr ?f"
    using np_divide_where_same_length[of "map (\<lambda>i. 2 * ?p ! i * ?r ! i) [0..<?n]"
             "map (\<lambda>i. ?p ! i + ?r ! i) [0..<?n]"]
    by (auto simp del: upt_Suc)
  show ?thesis
    unfolding classification_summary_def Let_def a1 a2 sum.case p r m a3 f
    by (simp add: l del: upt_Suc)
qed


lemma np_nanmean_map_Fin:
  "np_nanmean (map Fin xs) = (if xs = [] then NaN else Fin (sum_list xs / of_nat (length xs)))"
  by (simp add: np_nanmean_def fin_values_map_Fin)

subsection \<open>One worker\<close>


lemma single_worker_all_gather [simp]:
  "single_worker (all_gather_sum0 n x ev k) = None"
  "single_worker (all_gather_mean n' y ev k') = None"
  "single_worker (all_gather_sum n'' z k'') = None"
  by (simp_all add: all_gather_sum0_def all_gather_mean_def all_gather_sum_def)


subsection \<open>Matrices of counts\<close>

lemma np_vstack_rectangular:
  "np_vstack rows = (if rectangular rows then Inr rows else Inl ValueError)"
proof (cases rows)
  case Nil
  then show ?thesis unfolding np_vstack_def rectangular_def by simp
next
  case (Cons r rs)
  have "rectangular (r # rs) \<longleftrightarrow> (\<forall>r' \<in> set rs. length r' = length r)"
    unfolding rectangular_def by auto
  with Cons show ?thesis unfolding np_vstack_def by simp
qed

lemma rectangular_lengths:
  "rectangular rows \<Longrightarrow> r \<in> set rows \<Longrightarrow> r' \<in> set rows \<Longrightarrow> length r = length r'"
  unfolding rectangular_def by metis

lemma rectangularI:
  "rows \<noteq> [] \<Longrightarrow> (\<And>r. r \<in> set rows \<Longrightarrow> length r = n) \<Longrightarrow> rectangular rows"
  by (cases rows) (auto simp: rectangular_def)

lemma rectangular_hd: "rectangular rows \<Longrightarrow> r \<in> set rows \<Longrightarrow> length r = length (hd rows)"
  unfolding rectangular_def by blast

lemma rectangular_mset:
  assumes "mset A = mset B" and "rectangular A"
  shows "rectangular B" and "length (hd B) = length (hd A)"
proof -
  from assms have s: "set B = set A" and ne: "B \<noteq> []"
    by (auto dest: mset_eq_setD simp: rectangular_def)
  from ne have "hd B \<in> set A" using s by (metis hd_in_set)
  with assms(2) show l: "length (hd B) = length (hd A)"
    by (rule rectangular_hd)
  show "rectangular B"
  proof (rule rectangularI[OF ne])
    fix r assume "r \<in> set B"
    with s have "r \<in> set A" by simp
    with assms(2) show "length r = length (hd A)" by (rule rectangular_hd)
  qed
qed

lemma rectangular_append:
  assumes "rectangular (A @ B)" and "A \<noteq> []" and "B \<noteq> []"
  shows "rectangular A" and "rectangular B" and "length (hd B) = length (hd A)"
    and "length (hd (A @ B)) = length (hd A)"
proof -
  from assms(2) have h: "hd (A @ B) = hd A" by simp
  from assms(3) have "hd B \<in> set (A @ B)" by simp
  with assms(1) show hb: "length (hd B) = length (hd A)"
    unfolding h[symmetric] by (rule rectangular_hd)
  show "rectangular A"
  proof (rule rectangularI[OF assms(2)])
    fix r assume "r \<in> set A"
    then have "r \<in> set (A @ B)" by simp
    with assms(1) show "length r = length (hd (A @ B))" by (rule rectangular_hd)
  qed
  show "rectangular B"
  proof (rule rectangularI[OF assms(3)])
    fix r assume "r \<in> set B"
    then have "r \<in> set (A @ B)" by simp
    with assms(1) show "length r = length (hd (A @ B))" by (rule rectangular_hd)
  qed
  show "length (hd (A @ B)) = length (hd A)" by (simp add: h)
qed

lemma rectangular_nonempty: "rectangular rows \<Longrightarrow> rows \<noteq> []"
  unfolding rectangular_def by blast

lemma np_sum0_rectangular:
  "rectangular rows \<Longrightarrow>
   np_sum0 rows = map (\<lambda>j. sum_list (map (\<lambda>r. r ! j) rows)) [0..<length (hd rows)]"
  by (cases rows) (auto simp: np_sum0_def dest: rectangular_nonempty)

lemma length_np_sum0: "rectangular rows \<Longrightarrow> length (np_sum0 rows) = length (hd rows)"
  by (simp add: np_sum0_rectangular)

lemma sum_list_map_mset:
  "mset A = mset B \<Longrightarrow> sum_list (map f A) = sum_list (map f (B :: 'a list) :: nat list)"
proof -
  assume "mset A = mset B"
  then have "mset (map f A) = mset (map f B)" by simp
  then have "sum_mset (mset (map f A)) = sum_mset (mset (map f B))" by simp
  then show ?thesis by (simp only: sum_mset_sum_list)
qed

lemma np_sum0_mset:
  assumes "mset A = mset B" and "rectangular A"
  shows "np_sum0 A = np_sum0 B"
  using rectangular_mset[OF assms] assms
  by (simp add: np_sum0_rectangular sum_list_map_mset[OF assms(1)])

lemma np_sum0_nth:
  "rectangular rows \<Longrightarrow> j < length (hd rows)
     \<Longrightarrow> np_sum0 rows ! j = sum_list (map (\<lambda>r. r ! j) rows)"
  by (simp add: np_sum0_rectangular)

lemma np_sum0_two_workers:
  assumes "rectangular (A @ B)" and "A \<noteq> []" and "B \<noteq> []"
  shows "rectangular [np_sum0 A, np_sum0 B]"
    and "np_sum0 [np_sum0 A, np_sum0 B] = np_sum0 (A @ B)"
proof -
  note r = rectangular_append[OF assms]
  have la: "length (np_sum0 A) = length (hd A)" and lb: "length (np_sum0 B) = length (hd A)"
    using r by (simp_all add: length_np_sum0)
  show two: "rectangular [np_sum0 A, np_sum0 B]"
    using la lb by (intro rectangularI[where n = "length (hd A)"]) auto
  show "np_sum0 [np_sum0 A, np_sum0 B] = np_sum0 (A @ B)"
  proof (rule nth_equalityI)
    show "length (np_sum0 [np_sum0 A, np_sum0 B]) = length (np_sum0 (A @ B))"
      using two assms(1) la r(4) by (simp add: length_np_sum0)
  next
    fix j assume "j < length (np_sum0 [np_sum0 A, np_sum0 B])"
    then have j: "j < length (hd A)"
      using two la by (simp add: length_np_sum0)
    have "np_sum0 [np_sum0 A, np_sum0 B] ! j = np_sum0 A ! j + np_sum0 B ! j"
      using two j la by (subst np_sum0_nth) simp_all
    also have "\<dots> = sum_list (map (\<lambda>r. r ! j) A) + sum_list (map (\<lambda>r. r ! j) B)"
      using r j by (simp add: np_sum0_nth)
    also have "\<dots> = np_sum0 (A @ B) ! j"
      using assms(1) r(4) j by (simp add: np_sum0_nth)
    finally show "np_sum0 [np_sum0 A, np_sum0 B] ! j = np_sum0 (A @ B) ! j" .
  qed
qed

lemma np_size_rectangular:
  "rectangular rows \<Longrightarrow> np_size rows = length rows * length (hd rows)"
proof -
  assume r: "rectangular rows"
  then have "map length rows = replicate (length rows) (length (hd rows))"
    by (intro nth_equalityI) (auto intro: rectangular_hd)
  then show ?thesis
    by (simp add: np_size_def sum_list_replicate)
qed

lemma np_size_pos:
  "rectangular rows \<Longrightarrow> np_size rows > 0 \<longleftrightarrow> length (hd rows) > 0"
proof -
  assume r: "rectangular rows"
  then have "rows \<noteq> []" unfolding rectangular_def by blast
  then show ?thesis by (simp add: np_size_rectangular[OF r])
qed

subsection \<open>Means\<close>

lemma mset_fin_values:
  "mset (fin_values xs)
   = image_mset (\<lambda>x. case x of NaN \<Rightarrow> 0 | Fin v \<Rightarrow> v) (filter_mset (\<lambda>x. x \<noteq> NaN) (mset xs))"
  by (induction xs rule: fin_values.induct) simp_all

lemma sum_list_fin_values_mset:
  assumes "mset xs = mset ys"
  shows "sum_list (fin_values xs) = sum_list (fin_values ys)"
proof -
  from assms have "mset (fin_values xs) = mset (fin_values ys)"
    by (simp add: mset_fin_values)
  then have "sum_mset (mset (fin_values xs)) = sum_mset (mset (fin_values ys))"
    by simp
  then show ?thesis by (simp only: sum_mset_sum_list)
qed

lemma np_mean_mset:
  assumes "mset xs = mset ys"
  shows "np_mean xs = np_mean ys"
proof -
  from assms have "set xs = set ys" "length xs = length ys" "xs = [] \<longleftrightarrow> ys = []"
    by (auto dest: mset_eq_setD mset_eq_length)
  with sum_list_fin_values_mset[OF assms] show ?thesis
    by (simp add: np_mean_def)
qed

subsection \<open>Collating\<close>

lemma those_map_Some:
  "\<forall>x \<in> set xs. f x \<noteq> None \<Longrightarrow> those (map f xs) = Some (map (the \<circ> f) xs)"
  by (induction xs) auto

lemma those_map_SomeD:
  "those (map f xs) = Some ys \<Longrightarrow> \<forall>x \<in> set xs. f x \<noteq> None"
  by (induction xs arbitrary: ys) (auto split: option.splits)

lemma collate_cls_all_Some:
  assumes "\<forall>v \<in> set outs. cls_metrics v \<noteq> None"
  shows "collate_cls outs =
     (if rectangular (map (\<lambda>v. cls_tp (the (cls_metrics v))) outs)
         \<and> rectangular (map (\<lambda>v. cls_fp (the (cls_metrics v))) outs)
         \<and> rectangular (map (\<lambda>v. cls_fn (the (cls_metrics v))) outs)
         \<and> rectangular (map (\<lambda>v. cls_tn (the (cls_metrics v))) outs)
      then Inr \<lparr>c_cls_tp = map (\<lambda>v. cls_tp (the (cls_metrics v))) outs,
                c_cls_fp = map (\<lambda>v. cls_fp (the (cls_metrics v))) outs,
                c_cls_fn = map (\<lambda>v. cls_fn (the (cls_metrics v))) outs,
                c_cls_tn = map (\<lambda>v. cls_tn (the (cls_metrics v))) outs,
                c_cls_correct = map (\<lambda>v. cls_correct (the (cls_metrics v))) outs,
                c_cls_total = map (\<lambda>v. cls_total (the (cls_metrics v))) outs\<rparr>
      else Inl ValueError)"
  by (simp add: collate_cls_def those_map_Some[OF assms] np_vstack_rectangular o_def)

lemma collate_cls_Inr:
  "collate_cls outs = Inr cc \<Longrightarrow> \<forall>v \<in> set outs. cls_metrics v \<noteq> None"
  by (auto simp: collate_cls_def split: option.splits dest!: those_map_SomeD)

lemma collate_scalar_arrays:
  assumes "vs \<noteq> []" and "\<forall>v \<in> set vs. is_Array0 v"
  shows "collate_scalar vs = Inr (Stack (map scalar_value vs))"
proof (cases vs)
  case Nil
  with assms show ?thesis by simp
next
  case (Cons a as)
  with assms(2) have "is_Array0 a" and "list_all is_Array0 vs"
    by (simp_all add: list_all_iff)
  with Cons show ?thesis
    by (cases a) (simp_all add: collate_scalar_def)
qed

lemma collate_scalar_floats:
  assumes "vs \<noteq> []" and "\<forall>v \<in> set vs. is_Float v"
  shows "collate_scalar vs = Inr (PyList (map scalar_value vs))"
proof (cases vs)
  case Nil
  with assms show ?thesis by simp
next
  case (Cons a as)
  with assms(2) have "is_Float a" by simp
  with Cons show ?thesis
    by (cases a) (simp_all add: collate_scalar_def)
qed

lemma collate_scalar_values:
  "collate_scalar vs = Inr c \<Longrightarrow> column_values c = map scalar_value vs"
  by (auto simp: collate_scalar_def split: list.splits np_scalar.splits if_splits)


lemma collate_outputs_with_cls:
  assumes "outs \<noteq> []" and "\<forall>v \<in> set outs. cls_metrics v \<noteq> None"
  shows "collate_outputs outs =
     (case collate_scalar (map loss outs) of Inl e \<Rightarrow> Inl e | Inr losses \<Rightarrow>
     (case collate_scalar (map seg_loss outs) of Inl e \<Rightarrow> Inl e | Inr seg_losses \<Rightarrow>
     (case collate_scalar (map cls_loss outs) of Inl e \<Rightarrow> Inl e | Inr cls_losses \<Rightarrow>
        if rectangular (map tp_hard outs) \<and> rectangular (map fp_hard outs)
           \<and> rectangular (map fn_hard outs)
        then (case collate_cls outs of
                Inl e \<Rightarrow> Inl e
              | Inr cc \<Rightarrow>
                  Inr \<lparr>c_loss = losses, c_seg_loss = seg_losses, c_cls_loss = cls_losses,
                       c_tp_hard = map tp_hard outs, c_fp_hard = map fp_hard outs,
                       c_fn_hard = map fn_hard outs, c_cls = Some cc\<rparr>)
        else Inl ValueError)))"
proof (cases outs)
  case Nil
  with assms show ?thesis by simp
next
  case (Cons a as)
  with assms(2) obtain m where "cls_metrics a = Some m" by auto
  then show ?thesis
    unfolding collate_outputs_def Cons[symmetric]
    by (simp add: Cons np_vstack_rectangular split: sum.splits)
qed

lemma collate_outputs_counts:
  assumes "collate_outputs outs = Inr oc"
  shows "c_tp_hard oc = map tp_hard outs" "c_fp_hard oc = map fp_hard outs"
    "c_fn_hard oc = map fn_hard outs"
    "rectangular (map tp_hard outs)" "rectangular (map fp_hard outs)"
    "rectangular (map fn_hard outs)"
  using assms
  by (auto simp: collate_outputs_def np_vstack_rectangular
      split: list.splits sum.splits if_splits)

lemma collate_outputs_nonempty: "collate_outputs outs = Inr oc \<Longrightarrow> outs \<noteq> []"
  by (auto simp: collate_outputs_def)

lemma collate_outputs_cls:
  assumes "collate_outputs outs = Inr oc" and "c_cls oc = Some cc"
  shows "\<forall>v \<in> set outs. cls_metrics v \<noteq> None"
    and "c_cls_tp cc = map (\<lambda>v. cls_tp (the (cls_metrics v))) outs"
    and "c_cls_fp cc = map (\<lambda>v. cls_fp (the (cls_metrics v))) outs"
    and "c_cls_fn cc = map (\<lambda>v. cls_fn (the (cls_metrics v))) outs"
    and "c_cls_correct cc = map (\<lambda>v. cls_correct (the (cls_metrics v))) outs"
    and "c_cls_total cc = map (\<lambda>v. cls_total (the (cls_metrics v))) outs"
    and "rectangular (map (\<lambda>v. cls_tp (the (cls_metrics v))) outs)"
    and "rectangular (map (\<lambda>v. cls_fp (the (cls_metrics v))) outs)"
    and "rectangular (map (\<lambda>v. cls_fn (the (cls_metrics v))) outs)"
proof -
  from assms have c: "collate_cls outs = Inr cc"
    by (auto simp: collate_outputs_def split: list.splits sum.splits option.splits)
  then show a: "\<forall>v \<in> set outs. cls_metrics v \<noteq> None"
    by (rule collate_cls_Inr)
  from c show "c_cls_tp cc = map (\<lambda>v. cls_tp (the (cls_metrics v))) outs"
    and "c_cls_fp cc = map (\<lambda>v. cls_fp (the (cls_metrics v))) outs"
    and "c_cls_fn cc = map (\<lambda>v. cls_fn (the (cls_metrics v))) outs"
    and "c_cls_correct cc = map (\<lambda>v. cls_correct (the (cls_metrics v))) outs"
    and "c_cls_total cc = map (\<lambda>v. cls_total (the (cls_metrics v))) outs"
    and "rectangular (map (\<lambda>v. cls_tp (the (cls_metrics v))) outs)"
    and "rectangular (map (\<lambda>v. cls_fp (the (cls_metrics v))) outs)"
    and "rectangular (map (\<lambda>v. cls_fn (the (cls_metrics v))) outs)"
    unfolding collate_cls_all_Some[OF a] by (auto split: if_splits)
qed

subsection \<open>Dice of the summed steps\<close>

lemma np_sum0_map_steps:
  assumes "outs \<noteq> []" and "\<forall>v \<in> set outs. length (f v) = n"
  shows "np_sum0 (map f outs) = map (\<lambda>j. sum_list (map (\<lambda>v. f v ! j) outs)) [0..<n]"
proof -
  from assms have "length (f (hd outs)) = n" by simp
  with assms(1) show ?thesis
    by (cases outs) (simp_all add: np_sum0_def o_def)
qed







subsection \<open>Two workers against one\<close>

lemma partition_aggregate:
  assumes p: "mset zs = mset xs + mset ys" and x: "xs \<noteq> []" and y: "ys \<noteq> []"
    and r: "rectangular (map f zs)"
  shows "rectangular (map f xs)" and "rectangular (map f ys)"
    and "rectangular [np_sum0 (map f xs), np_sum0 (map f ys)]"
    and "np_sum0 [np_sum0 (map f xs), np_sum0 (map f ys)] = np_sum0 (map f zs)"
    and "length (hd (map f xs)) = length (hd (map f zs))"
    and "length (hd (map f ys)) = length (hd (map f zs))"
proof -
  from p have m: "mset (map f zs) = mset (map f xs @ map f ys)" by simp
  note a = rectangular_mset[OF m r]
  from x y have ne: "map f xs \<noteq> []" "map f ys \<noteq> []" by simp_all
  note b = rectangular_append[OF a(1) ne]
  show "rectangular (map f xs)" "rectangular (map f ys)" by (rule b)+
  show "rectangular [np_sum0 (map f xs), np_sum0 (map f ys)]"
    by (rule np_sum0_two_workers[OF a(1) ne])
  show "np_sum0 [np_sum0 (map f xs), np_sum0 (map f ys)] = np_sum0 (map f zs)"
    using np_sum0_two_workers(2)[OF a(1) ne] np_sum0_mset[OF m r] by simp
  show "length (hd (map f xs)) = length (hd (map f zs))"
    using a(2) b(4) by simp
  then show "length (hd (map f ys)) = length (hd (map f zs))"
    using b(3) by simp
qed

lemma partition_mean:
  assumes "mset zs = mset xs + mset ys"
  shows "np_mean (map f xs @ map f ys) = np_mean (map f zs)"
  by (rule np_mean_mset) (simp add: assms)

lemma partition_sum:
  assumes "mset zs = mset xs + mset ys"
  shows "sum_list (map g xs) + sum_list (map g ys) = (sum_list (map g zs) :: nat)"
proof -
  from assms have "mset (map g zs) = mset (map g xs @ map g ys)" by simp
  then have "sum_mset (mset (map g zs)) = sum_mset (mset (map g xs @ map g ys))" by simp
  then show ?thesis by (simp only: sum_mset_sum_list sum_list_append)
qed

lemma two_workers_all_gather_sum0:
  "two_workers (all_gather_sum0 n x ev k) (all_gather_sum0 n' y ev' k') =
     (if rectangular [x, y] then two_workers (k (np_sum0 [x, y])) (k' (np_sum0 [x, y]))
      else Some ((ev, Inl ValueError), (ev', Inl ValueError)))"
  by (simp add: all_gather_sum0_def np_vstack_rectangular)

lemma two_workers_all_gather_mean:
  "two_workers (all_gather_mean n x ev k) (all_gather_mean n' y ev' k') =
     (case np_vstack_mean [x, y] of
        Inl e \<Rightarrow> Some ((ev, Inl e), (ev', Inl e))
      | Inr m \<Rightarrow> two_workers (k m) (k' m))"
  by (simp add: all_gather_mean_def split: sum.splits)

lemma two_workers_all_gather_sum:
  "two_workers (all_gather_sum n x k) (all_gather_sum n' y k') =
     two_workers (k (x + y)) (k' (x + y))"
  by (simp add: all_gather_sum_def)

lemmas two_workers_gather =
  two_workers_all_gather_sum0 two_workers_all_gather_mean two_workers_all_gather_sum


lemma gatherable_losses_columns:
  assumes p: "mset zs = mset xs + mset ys" and x: "xs \<noteq> []" and y: "ys \<noteq> []"
    and g: "gatherable_losses key xs ys"
  shows "\<exists>cx cy cz. collate_scalar (map key xs) = Inr cx
           \<and> collate_scalar (map key ys) = Inr cy
           \<and> collate_scalar (map key zs) = Inr cz
           \<and> np_vstack_mean [cx, cy] = Inr (np_mean_column cz)"
proof -
  let ?f = "\<lambda>v. scalar_value (key v)"
  from p x have z: "zs \<noteq> []" by auto
  from p have "mset zs = mset (xs @ ys)" by simp
  then have s: "set zs = set (xs @ ys)" by (rule mset_eq_setD)
  have m: "np_mean (map ?f xs @ map ?f ys) = np_mean (map ?f zs)"
    by (rule partition_mean[OF p])
  from g consider
      (arrays) "\<forall>v \<in> set (xs @ ys). is_Array0 (key v)"
    | (floats) "\<forall>v \<in> set (xs @ ys). is_Float (key v)" "length xs = length ys"
    unfolding gatherable_losses_def by blast
  then show ?thesis
  proof cases
    case arrays
    with s have a: "\<forall>v \<in> set (map key xs). is_Array0 v" "\<forall>v \<in> set (map key ys). is_Array0 v"
      "\<forall>v \<in> set (map key zs). is_Array0 v"
      by auto
    from x y z have ne: "map key xs \<noteq> []" "map key ys \<noteq> []" "map key zs \<noteq> []"
      by simp_all
    show ?thesis
      using m
      by (simp add: collate_scalar_arrays[OF ne(1) a(1)] collate_scalar_arrays[OF ne(2) a(2)]
          collate_scalar_arrays[OF ne(3) a(3)] np_vstack_mean_def np_mean_column_def o_def)
  next
    case floats
    with s have a: "\<forall>v \<in> set (map key xs). is_Float v" "\<forall>v \<in> set (map key ys). is_Float v"
      "\<forall>v \<in> set (map key zs). is_Float v"
      by auto
    from x y z have ne: "map key xs \<noteq> []" "map key ys \<noteq> []" "map key zs \<noteq> []"
      by simp_all
    show ?thesis
      using m floats(2)
      by (simp add: collate_scalar_floats[OF ne(1) a(1)] collate_scalar_floats[OF ne(2) a(2)]
          collate_scalar_floats[OF ne(3) a(3)] np_vstack_mean_def np_mean_column_def o_def)
  qed
qed



lemma partition_with_cls:
  assumes p: "mset zs = mset xs + mset ys" and x: "xs \<noteq> []" and y: "ys \<noteq> []"
    and c: "collate_outputs zs = Inr oc"
    and n: "\<forall>v \<in> set zs. cls_metrics v \<noteq> None"
    and g: "gatherable_losses loss xs ys" "gatherable_losses seg_loss xs ys"
      "gatherable_losses cls_loss xs ys"
  shows "\<exists>r. single_worker (on_validation_epoch_end (self\<lparr>is_ddp := False\<rparr>) zs) = Some r
           \<and> two_workers (on_validation_epoch_end (self\<lparr>is_ddp := True\<rparr>) xs)
                          (on_validation_epoch_end (self\<lparr>is_ddp := True\<rparr>) ys) = Some (r, r)"
proof -
  let ?ctp = "\<lambda>v. cls_tp (the (cls_metrics v))" and ?cfp = "\<lambda>v. cls_fp (the (cls_metrics v))"
  let ?cfn = "\<lambda>v. cls_fn (the (cls_metrics v))" and ?ctn = "\<lambda>v. cls_tn (the (cls_metrics v))"
  let ?cc = "\<lambda>v. cls_correct (the (cls_metrics v))" and ?ct = "\<lambda>v. cls_total (the (cls_metrics v))"
  from p x have z: "zs \<noteq> []" by auto
  from p have "mset zs = mset (xs @ ys)" by simp
  then have "set zs = set (xs @ ys)" by (rule mset_eq_setD)
  then have sub: "set xs \<subseteq> set zs" "set ys \<subseteq> set zs"
    by auto
  with n have nx: "\<forall>v \<in> set xs. cls_metrics v \<noteq> None" and ny: "\<forall>v \<in> set ys. cls_metrics v \<noteq> None"
    by auto
  note cz = collate_outputs_with_cls[OF z n] and cx = collate_outputs_with_cls[OF x nx]
    and cy = collate_outputs_with_cls[OF y ny]
  note kz = collate_cls_all_Some[OF n] and kx = collate_cls_all_Some[OF nx]
    and ky = collate_cls_all_Some[OF ny]
  note rz = collate_outputs_counts(4-6)[OF c]
  from c rz have "\<exists>cc. collate_cls zs = Inr cc"
    unfolding cz by (simp split: sum.splits)
  then have qz: "rectangular (map ?ctp zs)" "rectangular (map ?cfp zs)"
    "rectangular (map ?cfn zs)" "rectangular (map ?ctn zs)"
    unfolding kz by (simp_all split: if_splits)
  note tp = partition_aggregate[OF p x y rz(1)]
    and fp = partition_aggregate[OF p x y rz(2)]
    and fn = partition_aggregate[OF p x y rz(3)]
  note ctp = partition_aggregate[OF p x y qz(1)]
    and cfp = partition_aggregate[OF p x y qz(2)]
    and cfn = partition_aggregate[OF p x y qz(3)]
    and ctn = partition_aggregate[OF p x y qz(4)]
  have sz: "np_size (map ?ctp zs) > 0 \<longleftrightarrow> length (hd (map ?ctp zs)) > 0"
    "np_size (map ?ctp xs) > 0 \<longleftrightarrow> length (hd (map ?ctp zs)) > 0"
    "np_size (map ?ctp ys) > 0 \<longleftrightarrow> length (hd (map ?ctp zs)) > 0"
    using np_size_pos[OF qz(1)] np_size_pos[OF ctp(1)] np_size_pos[OF ctp(2)] ctp(5,6)
    by simp_all
  from gatherable_losses_columns[OF p x y g(1)] obtain lx ly lz
    where l: "collate_scalar (map loss xs) = Inr lx" "collate_scalar (map loss ys) = Inr ly"
      "collate_scalar (map loss zs) = Inr lz" "np_vstack_mean [lx, ly] = Inr (np_mean_column lz)"
    by blast
  from gatherable_losses_columns[OF p x y g(2)] obtain sx sy sz'
    where s: "collate_scalar (map seg_loss xs) = Inr sx"
      "collate_scalar (map seg_loss ys) = Inr sy"
      "collate_scalar (map seg_loss zs) = Inr sz'"
      "np_vstack_mean [sx, sy] = Inr (np_mean_column sz')"
    by blast
  from gatherable_losses_columns[OF p x y g(3)] obtain kx' ky' kz'
    where k: "collate_scalar (map cls_loss xs) = Inr kx'"
      "collate_scalar (map cls_loss ys) = Inr ky'"
      "collate_scalar (map cls_loss zs) = Inr kz'"
      "np_vstack_mean [kx', ky'] = Inr (np_mean_column kz')"
    by blast
  show ?thesis
  proof (cases "length (hd (map ?ctp zs)) > 0")
    case False
    show ?thesis
      unfolding on_validation_epoch_end_def cz cx cy kz kx ky l s k
      using False
      by (simp add: rz tp fp fn qz ctp(1,2) cfp(1,2) cfn(1,2) ctn(1,2) sz l s k Let_def
          two_workers_gather reduce_and_report_def classification_block_def)
  next
    case True
    show ?thesis
      unfolding on_validation_epoch_end_def cz cx cy kz kx ky l s k
      using True
      by (simp add: rz tp fp fn qz ctp cfp cfn ctn(1,2) sz l s k Let_def
          two_workers_gather partition_sum[OF p]
          reduce_and_report_def classification_block_def split: sum.splits)
  qed
qed







lemma example_trainer_flags:
  "example_trainer\<lparr>is_ddp := False\<rparr> = example_trainer"
  "example_trainer\<lparr>is_ddp := True\<rparr> = example_ddp_trainer"
  by (simp_all add: example_defs)


subsection \<open>The classification metrics of the reduction\<close>

lemma classification_summary_formulas:
  assumes "length tp = n" and "length fp = n" and "length fn = n" and "0 < n"
  shows "\<exists>cs. classification_summary tp fp fn n_correct n_total = Inr cs
          \<and> cls_accuracy cs = (if n_total = 0 then 0 else of_nat n_correct / of_nat n_total)
          \<and> length (cls_precision_per_class cs) = n
          \<and> length (cls_recall_per_class cs) = n
          \<and> length (cls_f1_per_class cs) = n
          \<and> (\<forall>j<n.
                cls_precision_per_class cs ! j =
                  (if tp ! j + fp ! j = 0 then 0
                   else of_nat (tp ! j) / of_nat (tp ! j + fp ! j))
                \<and> cls_recall_per_class cs ! j =
                  (if tp ! j + fn ! j = 0 then 0
                   else of_nat (tp ! j) / of_nat (tp ! j + fn ! j))
                \<and> cls_f1_per_class cs ! j =
                  (if cls_precision_per_class cs ! j + cls_recall_per_class cs ! j = 0 then 0
                   else 2 * cls_precision_per_class cs ! j * cls_recall_per_class cs ! j
                        / (cls_precision_per_class cs ! j + cls_recall_per_class cs ! j)))
          \<and> cls_macro_precision cs = Fin (sum_list (cls_precision_per_class cs) / of_nat n)
          \<and> cls_macro_recall cs = Fin (sum_list (cls_recall_per_class cs) / of_nat n)
          \<and> cls_macro_f1 cs = Fin (sum_list (cls_f1_per_class cs) / of_nat n)"
proof -
  have l: "length tp = length fp" "length fp = length fn"
    using assms by simp_all
  define p where "p = map (\<lambda>i. if tp ! i + fp ! i = 0 then 0
                       else rat_of_nat (tp ! i) / of_nat (tp ! i + fp ! i)) [0..<length tp]"
  define r where "r = map (\<lambda>i. if tp ! i + fn ! i = 0 then 0
                       else rat_of_nat (tp ! i) / of_nat (tp ! i + fn ! i)) [0..<length tp]"
  define f where "f = map (\<lambda>i. if p ! i + r ! i = 0 then 0
                       else 2 * p ! i * r ! i / (p ! i + r ! i)) [0..<length tp]"
  define cs where "cs = \<lparr>cls_accuracy = (if n_total = 0 then 0
                                        else rat_of_nat n_correct / of_nat n_total),
            cls_precision_per_class = p, cls_recall_per_class = r, cls_f1_per_class = f,
            cls_macro_precision = np_nanmean (map Fin p),
            cls_macro_recall = np_nanmean (map Fin r),
            cls_macro_f1 = np_nanmean (map Fin f)\<rparr>"
  have eq: "classification_summary tp fp fn n_correct n_total = Inr cs"
    unfolding classification_summary_same_length[OF l] Let_def cs_def p_def r_def f_def
    by (rule refl)
  have len: "length p = n" "length r = n" "length f = n"
    using assms(1) by (simp_all add: p_def r_def f_def)
  have sel: "cls_accuracy cs = (if n_total = 0 then 0 else of_nat n_correct / of_nat n_total)"
    "cls_precision_per_class cs = p" "cls_recall_per_class cs = r" "cls_f1_per_class cs = f"
    "cls_macro_precision cs = np_nanmean (map Fin p)"
    "cls_macro_recall cs = np_nanmean (map Fin r)"
    "cls_macro_f1 cs = np_nanmean (map Fin f)"
    by (simp_all add: cs_def)
  have nth: "\<forall>j<n.
               p ! j = (if tp ! j + fp ! j = 0 then 0
                        else of_nat (tp ! j) / of_nat (tp ! j + fp ! j))
             \<and> r ! j = (if tp ! j + fn ! j = 0 then 0
                        else of_nat (tp ! j) / of_nat (tp ! j + fn ! j))
             \<and> f ! j = (if p ! j + r ! j = 0 then 0
                        else 2 * p ! j * r ! j / (p ! j + r ! j))"
    using assms(1) by (simp add: p_def r_def f_def)
  have empty: "p \<noteq> []" "r \<noteq> []" "f \<noteq> []"
    using len assms(4) by auto
  have macro: "np_nanmean (map Fin p) = Fin (sum_list p / of_nat n)"
    "np_nanmean (map Fin r) = Fin (sum_list r / of_nat n)"
    "np_nanmean (map Fin f) = Fin (sum_list f / of_nat n)"
    by (simp_all add: np_nanmean_map_Fin empty len)
  show ?thesis
    apply (rule exI[of _ cs])
    apply (simp only: eq sel len macro)
    apply (insert nth)
    apply blast
    done
qed

lemma single_worker_classification_block:
  assumes "collate_outputs outs = Inr oc" and "c_cls oc = Some cc" and "\<not> is_ddp self"
    and "\<forall>v \<in> set outs. length (cls_tp (the (cls_metrics v))) = n"
    and "0 < n"
    and "classification_summary
           (map (\<lambda>j. sum_list (map (\<lambda>v. cls_tp (the (cls_metrics v)) ! j) outs)) [0..<n])
           (np_sum0 (c_cls_fp cc)) (np_sum0 (c_cls_fn cc))
           (sum_list (map (\<lambda>v. cls_correct (the (cls_metrics v))) outs))
           (sum_list (map (\<lambda>v. cls_total (the (cls_metrics v))) outs)) = Inr cs"
  shows "\<exists>ev s. single_worker (on_validation_epoch_end self outs) = Some (ev, Inr s)
           \<and> cls_metrics_summary s = Some cs"
proof -
  note ne = collate_outputs_nonempty[OF assms(1)]
  note k = collate_outputs_cls[OF assms(1,2)]
  note tp = np_sum0_map_steps[OF ne assms(4)]
  from ne assms(4) have "length (hd (map (\<lambda>v. cls_tp (the (cls_metrics v))) outs)) = n"
    by (cases outs) simp_all
  with np_size_pos[OF k(7)] assms(5) have sz: "np_size (c_cls_tp cc) > 0"
    by (simp add: k(2))
  show ?thesis
    using assms(3) sz assms(6)
    by (simp add: on_validation_epoch_end_def assms(1,2) Let_def reduce_and_report_def
        classification_block_def k(2,5,6) tp)
qed

text \<open>
  C5. Let one worker reduce any list of per-step results that collate and that all
  carry classification counts, with count arrays of \<open>n > 0\<close> classes. Write \<open>tp\<close>,
  \<open>fp\<close>, \<open>fn\<close> for the sums of the counts of a class over all the steps and
  \<open>correct\<close>, \<open>total\<close> for the sums of the numbers of correct predictions and of
  samples. Then the reduction returns a summary with classification metrics: the
  accuracy is \<open>correct / total\<close> (0 for no sample); for each class the precision is
  \<open>tp / (tp + fp)\<close>, the recall \<open>tp / (tp + fn)\<close> and the F1
  \<open>2 p r / (p + r)\<close>, each 0 when its denominator is 0; the macro averages are the
  means over the classes (no entry is not-a-number). Two workers of a distributed run
  over any split of the results into two parts that are not empty, with loss entries
  that can be gathered, both end with this summary. On two steps whose counts add up to
  tp = [2, 0], fp = [1, 0], fn = [0, 3] with 7 correct of 10, the reduction returns
  precision [2/3, 0], recall [1, 0], F1 [0.8, 0], macro F1 0.4 and accuracy 0.7.
\<close>

theorem reduction_classification_metrics:
  assumes "collate_outputs outs = Inr oc" and "\<not> is_ddp self"
    and "\<forall>v \<in> set outs. \<exists>m. cls_metrics v = Some m
           \<and> length (cls_tp m) = n \<and> length (cls_fp m) = n \<and> length (cls_fn m) = n"
    and "0 < n"
  shows "(\<exists>ev s cs.
            single_worker (on_validation_epoch_end self outs) = Some (ev, Inr s)
          \<and> (\<forall>xs ys.
                 mset outs = mset xs + mset ys \<and> xs \<noteq> [] \<and> ys \<noteq> []
                 \<and> gatherable_losses loss xs ys \<and> gatherable_losses seg_loss xs ys
                 \<and> gatherable_losses cls_loss xs ys
                 \<longrightarrow> two_workers (on_validation_epoch_end (self\<lparr>is_ddp := True\<rparr>) xs)
                                 (on_validation_epoch_end (self\<lparr>is_ddp := True\<rparr>) ys)
                       = Some ((ev, Inr s), (ev, Inr s)))
          \<and> cls_metrics_summary s = Some cs
          \<and> (let tp = (\<lambda>j. sum_list (map (\<lambda>v. cls_tp (the (cls_metrics v)) ! j) outs));
                  fp = (\<lambda>j. sum_list (map (\<lambda>v. cls_fp (the (cls_metrics v)) ! j) outs));
                  fn = (\<lambda>j. sum_list (map (\<lambda>v. cls_fn (the (cls_metrics v)) ! j) outs));
                  n_correct = sum_list (map (\<lambda>v. cls_correct (the (cls_metrics v))) outs);
                  n_total = sum_list (map (\<lambda>v. cls_total (the (cls_metrics v))) outs)
              in cls_accuracy cs
                   = (if n_total = 0 then 0 else of_nat n_correct / of_nat n_total)
               \<and> length (cls_precision_per_class cs) = n
               \<and> length (cls_recall_per_class cs) = n
               \<and> length (cls_f1_per_class cs) = n
               \<and> (\<forall>j<n.
                     cls_precision_per_class cs ! j =
                       (if tp j + fp j = 0 then 0 else of_nat (tp j) / of_nat (tp j + fp j))
                   \<and> cls_recall_per_class cs ! j =
                       (if tp j + fn j = 0 then 0 else of_nat (tp j) / of_nat (tp j + fn j))
                   \<and> cls_f1_per_class cs ! j =
                       (if cls_precision_per_class cs ! j + cls_recall_per_class cs ! j = 0
                        then 0
                        else 2 * cls_precision_per_class cs ! j * cls_recall_per_class cs ! j
                             / (cls_precision_per_class cs ! j
                                + cls_recall_per_class cs ! j)))
               \<and> cls_macro_precision cs
                   = Fin (sum_list (cls_precision_per_class cs) / of_nat n)
               \<and> cls_macro_recall cs = Fin (sum_list (cls_recall_per_class cs) / of_nat n)
               \<and> cls_macro_f1 cs = Fin (sum_list (cls_f1_per_class cs) / of_nat n)))
       \<and> (\<exists>ev s. single_worker (on_validation_epoch_end example_trainer
                                   [example_cls_step1, example_cls_step2])
                    = Some (ev, Inr s)
                \<and> cls_metrics_summary s =
                    Some \<lparr>cls_accuracy = 7 / 10,
                          cls_precision_per_class = [2 / 3, 0],
                          cls_recall_per_class = [1, 0],
                          cls_f1_per_class = [4 / 5, 0],
                          cls_macro_precision = Fin (1 / 3),
                          cls_macro_recall = Fin (1 / 2),
                          cls_macro_f1 = Fin (2 / 5)\<rparr>)"
proof (rule conjI)
  show "\<exists>ev s. single_worker (on_validation_epoch_end example_trainer
                                   [example_cls_step1, example_cls_step2])
                    = Some (ev, Inr s)
                \<and> cls_metrics_summary s =
                    Some \<lparr>cls_accuracy = 7 / 10,
                          cls_precision_per_class = [2 / 3, 0],
                          cls_recall_per_class = [1, 0],
                          cls_f1_per_class = [4 / 5, 0],
                          cls_macro_precision = Fin (1 / 3),
                          cls_macro_recall = Fin (1 / 2),
                          cls_macro_f1 = Fin (2 / 5)\<rparr>"
    by (simp add: epoch_end_defs example_defs Let_def upt_rec)
next
  let ?tp = "\<lambda>v. cls_tp (the (cls_metrics v))" and ?fp = "\<lambda>v. cls_fp (the (cls_metrics v))"
  let ?fn = "\<lambda>v. cls_fn (the (cls_metrics v))"
  let ?nc = "sum_list (map (\<lambda>v. cls_correct (the (cls_metrics v))) outs)"
  let ?nt = "sum_list (map (\<lambda>v. cls_total (the (cls_metrics v))) outs)"
  let ?TP = "map (\<lambda>j. sum_list (map (\<lambda>v. ?tp v ! j) outs)) [0..<n]"
  let ?FP = "map (\<lambda>j. sum_list (map (\<lambda>v. ?fp v ! j) outs)) [0..<n]"
  let ?FN = "map (\<lambda>j. sum_list (map (\<lambda>v. ?fn v ! j) outs)) [0..<n]"
  note ne = collate_outputs_nonempty[OF assms(1)]
  from assms(3) have all: "\<forall>v \<in> set outs. cls_metrics v \<noteq> None"
    by fastforce
  from assms(1) obtain cc where cc: "c_cls oc = Some cc"
    unfolding collate_outputs_with_cls[OF ne all] by (auto split: sum.splits if_splits)
  note k = collate_outputs_cls[OF assms(1) cc]
  from assms(3) have l: "\<forall>v \<in> set outs. length (?tp v) = n"
    "\<forall>v \<in> set outs. length (?fp v) = n" "\<forall>v \<in> set outs. length (?fn v) = n"
    by fastforce+
  have sums: "np_sum0 (c_cls_fp cc) = ?FP" "np_sum0 (c_cls_fn cc) = ?FN"
    unfolding k(3,4) by (rule np_sum0_map_steps[OF ne l(2)], rule np_sum0_map_steps[OF ne l(3)])
  have len: "length ?TP = n" "length ?FP = n" "length ?FN = n"
    by simp_all
  from classification_summary_formulas[OF len assms(4), of ?nc ?nt] obtain cs
    where cs: "classification_summary ?TP ?FP ?FN ?nc ?nt = Inr cs"
      and f: "cls_accuracy cs = (if ?nt = 0 then 0 else of_nat ?nc / of_nat ?nt)"
        "length (cls_precision_per_class cs) = n"
        "length (cls_recall_per_class cs) = n"
        "length (cls_f1_per_class cs) = n"
        "\<forall>j<n.
                cls_precision_per_class cs ! j =
                  (if ?TP ! j + ?FP ! j = 0 then 0
                   else of_nat (?TP ! j) / of_nat (?TP ! j + ?FP ! j))
                \<and> cls_recall_per_class cs ! j =
                  (if ?TP ! j + ?FN ! j = 0 then 0
                   else of_nat (?TP ! j) / of_nat (?TP ! j + ?FN ! j))
                \<and> cls_f1_per_class cs ! j =
                  (if cls_precision_per_class cs ! j + cls_recall_per_class cs ! j = 0 then 0
                   else 2 * cls_precision_per_class cs ! j * cls_recall_per_class cs ! j
                        / (cls_precision_per_class cs ! j + cls_recall_per_class cs ! j))"
        "cls_macro_precision cs = Fin (sum_list (cls_precision_per_class cs) / of_nat n)"
        "cls_macro_recall cs = Fin (sum_list (cls_recall_per_class cs) / of_nat n)"
        "cls_macro_f1 cs = Fin (sum_list (cls_f1_per_class cs) / of_nat n)"
    by blast
  from single_worker_classification_block[OF assms(1) cc assms(2) l(1) assms(4)
         cs[folded sums]]
  obtain ev s where s: "single_worker (on_validation_epoch_end self outs) = Some (ev, Inr s)"
    "cls_metrics_summary s = Some cs"
    by blast
  have two: "\<forall>xs ys.
                 mset outs = mset xs + mset ys \<and> xs \<noteq> [] \<and> ys \<noteq> []
                 \<and> gatherable_losses loss xs ys \<and> gatherable_losses seg_loss xs ys
                 \<and> gatherable_losses cls_loss xs ys
                 \<longrightarrow> two_workers (on_validation_epoch_end (self\<lparr>is_ddp := True\<rparr>) xs)
                                 (on_validation_epoch_end (self\<lparr>is_ddp := True\<rparr>) ys)
                       = Some ((ev, Inr s), (ev, Inr s))"
  proof (intro allI impI)
    fix xs ys
    assume h: "mset outs = mset xs + mset ys \<and> xs \<noteq> [] \<and> ys \<noteq> []
                 \<and> gatherable_losses loss xs ys \<and> gatherable_losses seg_loss xs ys
                 \<and> gatherable_losses cls_loss xs ys"
    then have m: "mset outs = mset xs + mset ys" and x: "xs \<noteq> []" and y: "ys \<noteq> []"
      and g: "gatherable_losses loss xs ys" "gatherable_losses seg_loss xs ys"
        "gatherable_losses cls_loss xs ys"
      by blast+
    from assms(2) have "self\<lparr>is_ddp := False\<rparr> = self" by simp
    with partition_with_cls[OF m x y assms(1) all g, of self] s(1)
    show "two_workers (on_validation_epoch_end (self\<lparr>is_ddp := True\<rparr>) xs)
                                 (on_validation_epoch_end (self\<lparr>is_ddp := True\<rparr>) ys)
                       = Some ((ev, Inr s), (ev, Inr s))"
      by auto
  qed
  have nth: "\<forall>j<n.
                cls_precision_per_class cs ! j =
                  (if sum_list (map (\<lambda>v. ?tp v ! j) outs) + sum_list (map (\<lambda>v. ?fp v ! j) outs) = 0
                   then 0
                   else of_nat (sum_list (map (\<lambda>v. ?tp v ! j) outs))
                        / of_nat (sum_list (map (\<lambda>v. ?tp v ! j) outs)
                                  + sum_list (map (\<lambda>v. ?fp v ! j) outs)))
                \<and> cls_recall_per_class cs ! j =
                  (if sum_list (map (\<lambda>v. ?tp v ! j) outs) + sum_list (map (\<lambda>v. ?fn v ! j) outs) = 0
                   then 0
                   else of_nat (sum_list (map (\<lambda>v. ?tp v ! j) outs))
                        / of_nat (sum_list (map (\<lambda>v. ?tp v ! j) outs)
                                  + sum_list (map (\<lambda>v. ?fn v ! j) outs)))
                \<and> cls_f1_per_class cs ! j =
                  (if cls_precision_per_class cs ! j + cls_recall_per_class cs ! j = 0 then 0
                   else 2 * cls_precision_per_class cs ! j * cls_recall_per_class cs ! j
                        / (cls_precision_per_class cs ! j + cls_recall_per_class cs ! j))"
  proof (intro allI impI)
    fix j assume j: "j < n"
    with f(5) have
      "cls_precision_per_class cs ! j =
                  (if ?TP ! j + ?FP ! j = 0 then 0
                   else of_nat (?TP ! j) / of_nat (?TP ! j + ?FP ! j))
                \<and> cls_recall_per_class cs ! j =
                  (if ?TP ! j + ?FN ! j = 0 then 0
                   else of_nat (?TP ! j) / of_nat (?TP ! j + ?FN ! j))
                \<and> cls_f1_per_class cs ! j =
                  (if cls_precision_per_class cs ! j + cls_recall_per_class cs ! j = 0 then 0
                   else 2 * cls_precision_per_class cs ! j * cls_recall_per_class cs ! j
                        / (cls_precision_per_class cs ! j + cls_recall_per_class cs ! j))"
      by blast
    moreover from j have "?TP ! j = sum_list (map (\<lambda>v. ?tp v ! j) outs)"
      "?FP ! j = sum_list (map (\<lambda>v. ?fp v ! j) outs)"
      "?FN ! j = sum_list (map (\<lambda>v. ?fn v ! j) outs)"
      by simp_all
    ultimately show
      "cls_precision_per_class cs ! j =
                  (if sum_list (map (\<lambda>v. ?tp v ! j) outs) + sum_list (map (\<lambda>v. ?fp v ! j) outs) = 0
                   then 0
                   else of_nat (sum_list (map (\<lambda>v. ?tp v ! j) outs))
                        / of_nat (sum_list (map (\<lambda>v. ?tp v ! j) outs)
                                  + sum_list (map (\<lambda>v. ?fp v ! j) outs)))
                \<and> cls_recall_per_class cs ! j =
                  (if sum_list (map (\<lambda>v. ?tp v ! j) outs) + sum_list (map (\<lambda>v. ?fn v ! j) outs) = 0
                   then 0
                   else of_nat (sum_list (map (\<lambda>v. ?tp v ! j) outs))
                        / of_nat (sum_list (map (\<lambda>v. ?tp v ! j) outs)
                                  + sum_list (map (\<lambda>v. ?fn v ! j) outs)))
                \<and> cls_f1_per_class cs ! j =
                  (if cls_precision_per_class cs ! j + cls_recall_per_class cs ! j = 0 then 0
                   else 2 * cls_precision_per_class cs ! j * cls_recall_per_class cs ! j
                        / (cls_precision_per_class cs ! j + cls_recall_per_class cs ! j))"
      by (simp only:)
  qed
  show "\<exists>ev s cs.
            single_worker (on_validation_epoch_end self outs) = Some (ev, Inr s)
          \<and> (\<forall>xs ys.
                 mset outs = mset xs + mset ys \<and> xs \<noteq> [] \<and> ys \<noteq> []
                 \<and> gatherable_losses loss xs ys \<and> gatherable_losses seg_loss xs ys
                 \<and> gatherable_losses cls_loss xs ys
                 \<longrightarrow> two_workers (on_validation_epoch_end (self\<lparr>is_ddp := True\<rparr>) xs)
                                 (on_validation_epoch_end (self\<lparr>is_ddp := True\<rparr>) ys)
                       = Some ((ev, Inr s), (ev, Inr s)))
          \<and> cls_metrics_summary s = Some cs
          \<and> (let tp = (\<lambda>j. sum_list (map (\<lambda>v. cls_tp (the (cls_metrics v)) ! j) outs));
                  fp = (\<lambda>j. sum_list (map (\<lambda>v. cls_fp (the (cls_metrics v)) ! j) outs));
                  fn = (\<lambda>j. sum_list (map (\<lambda>v. cls_fn (the (cls_metrics v)) ! j) outs));
                  n_correct = sum_list (map (\<lambda>v. cls_correct (the (cls_metrics v))) outs);
                  n_total = sum_list (map (\<lambda>v. cls_total (the (cls_metrics v))) outs)
              in cls_accuracy cs
                   = (if n_total = 0 then 0 else of_nat n_correct / of_nat n_total)
               \<and> length (cls_precision_per_class cs) = n
               \<and> length (cls_recall_per_class cs) = n
               \<and> length (cls_f1_per_class cs) = n
               \<and> (\<forall>j<n.
                     cls_precision_per_class cs ! j =
                       (if tp j + fp j = 0 then 0 else of_nat (tp j) / of_nat (tp j + fp j))
                   \<and> cls_recall_per_class cs ! j =
                       (if tp j + fn j = 0 then 0 else of_nat (tp j) / of_nat (tp j + fn j))
                   \<and> cls_f1_per_class cs ! j =
                       (if cls_precision_per_class cs ! j + cls_recall_per_class cs ! j = 0
                        then 0
                        else 2 * cls_precision_per_class cs ! j * cls_recall_per_class cs ! j
                             / (cls_precision_per_class cs ! j
                                + cls_recall_per_class cs ! j)))
               \<and> cls_macro_precision cs
                   = Fin (sum_list (cls_precision_per_class cs) / of_nat n)
               \<and> cls_macro_recall cs = Fin (sum_list (cls_recall_per_class cs) / of_nat n)
               \<and> cls_macro_f1 cs = Fin (sum_list (cls_f1_per_class cs) / of_nat n))"
    unfolding Let_def
    apply (rule exI[of _ ev], rule exI[of _ s], rule exI[of _ cs])
    apply (intro conjI s f(1-4) f(6-8))
     apply (rule two)
    apply (rule nth)
    done
qed


theorem reduction_classification_metrics_witness:
  "(\<exists>oc. collate_outputs [example_cls_step1, example_cls_step2] = Inr oc)
   \<and> \<not> is_ddp example_trainer
   \<and> cls_metrics example_cls_step1
       = Some \<lparr>cls_tp = [1, 0], cls_fp = [1, 0], cls_fn = [0, 1], cls_tn = [2, 3],
               cls_correct = 3, cls_total = 4\<rparr>
   \<and> cls_metrics example_cls_step2
       = Some \<lparr>cls_tp = [1, 0], cls_fp = [0, 0], cls_fn = [0, 2], cls_tn = [5, 4],
               cls_correct = 4, cls_total = 6\<rparr>
   \<and> (\<exists>ev s cs.
         single_worker (on_validation_epoch_end example_trainer
                          [example_cls_step1, example_cls_step2]) = Some (ev, Inr s)
       \<and> two_workers (on_validation_epoch_end example_ddp_trainer [example_cls_step1])
                      (on_validation_epoch_end example_ddp_trainer [example_cls_step2])
           = Some ((ev, Inr s), (ev, Inr s))
       \<and> cls_metrics_summary s = Some cs
       \<and> cls_accuracy cs = 7 / 10
       \<and> cls_precision_per_class cs ! 0 = 2 / 3 \<and> cls_precision_per_class cs ! 1 = 0
       \<and> cls_recall_per_class cs ! 0 = 1 \<and> cls_recall_per_class cs ! 1 = 0
       \<and> cls_f1_per_class cs ! 0 = 4 / 5 \<and> cls_f1_per_class cs ! 1 = 0)"
proof -
  let ?outs = "[example_cls_step1, example_cls_step2]"
  have c: "collate_outputs ?outs
      = Inr \<lparr>c_loss = Stack [Fin (3 / 2), Fin (1 / 2)], c_seg_loss = Stack [Fin 1, Fin 1],
             c_cls_loss = Stack [Fin 1, Fin 1],
             c_tp_hard = [[1, 2], [0, 0]], c_fp_hard = [[3, 4], [0, 1]],
             c_fn_hard = [[5, 6], [0, 2]],
             c_cls = Some \<lparr>c_cls_tp = [[1, 0], [1, 0]], c_cls_fp = [[1, 0], [0, 0]],
                            c_cls_fn = [[0, 1], [0, 2]], c_cls_tn = [[2, 3], [5, 4]],
                            c_cls_correct = [3, 4], c_cls_total = [4, 6]\<rparr>\<rparr>"
    by (simp add: collate_outputs_def collate_scalar_def collate_cls_def np_vstack_def
        example_defs)
  have d: "\<not> is_ddp example_trainer"
    by (simp add: example_defs)
  have m: "cls_metrics example_cls_step1
       = Some \<lparr>cls_tp = [1, 0], cls_fp = [1, 0], cls_fn = [0, 1], cls_tn = [2, 3],
               cls_correct = 3, cls_total = 4\<rparr>"
    "cls_metrics example_cls_step2
       = Some \<lparr>cls_tp = [1, 0], cls_fp = [0, 0], cls_fn = [0, 2], cls_tn = [5, 4],
               cls_correct = 4, cls_total = 6\<rparr>"
    by (simp_all add: example_defs)
  have l: "\<forall>v \<in> set ?outs. \<exists>m. cls_metrics v = Some m
           \<and> length (cls_tp m) = 2 \<and> length (cls_fp m) = 2 \<and> length (cls_fn m) = 2"
    by (simp add: m)
  have n: "(0::nat) < 2" by simp
  from reduction_classification_metrics[OF c d l n, THEN conjunct1] obtain ev s cs
    where s: "single_worker (on_validation_epoch_end example_trainer ?outs) = Some (ev, Inr s)"
      "cls_metrics_summary s = Some cs"
      and t: "\<forall>xs ys.
                 mset ?outs = mset xs + mset ys \<and> xs \<noteq> [] \<and> ys \<noteq> []
                 \<and> gatherable_losses loss xs ys \<and> gatherable_losses seg_loss xs ys
                 \<and> gatherable_losses cls_loss xs ys
                 \<longrightarrow> two_workers (on_validation_epoch_end (example_trainer\<lparr>is_ddp := True\<rparr>) xs)
                                 (on_validation_epoch_end (example_trainer\<lparr>is_ddp := True\<rparr>) ys)
                       = Some ((ev, Inr s), (ev, Inr s))"
      and a: "cls_accuracy cs = 7 / 10"
      and q: "\<forall>j<2.
                cls_precision_per_class cs ! j =
                  (if sum_list (map (\<lambda>v. cls_tp (the (cls_metrics v)) ! j) ?outs)
                      + sum_list (map (\<lambda>v. cls_fp (the (cls_metrics v)) ! j) ?outs) = 0
                   then 0
                   else of_nat (sum_list (map (\<lambda>v. cls_tp (the (cls_metrics v)) ! j) ?outs))
                        / of_nat (sum_list (map (\<lambda>v. cls_tp (the (cls_metrics v)) ! j) ?outs)
                                  + sum_list (map (\<lambda>v. cls_fp (the (cls_metrics v)) ! j) ?outs)))
                \<and> cls_recall_per_class cs ! j =
                  (if sum_list (map (\<lambda>v. cls_tp (the (cls_metrics v)) ! j) ?outs)
                      + sum_list (map (\<lambda>v. cls_fn (the (cls_metrics v)) ! j) ?outs) = 0
                   then 0
                   else of_nat (sum_list (map (\<lambda>v. cls_tp (the (cls_metrics v)) ! j) ?outs))
                        / of_nat (sum_list (map (\<lambda>v. cls_tp (the (cls_metrics v)) ! j) ?outs)
                                  + sum_list (map (\<lambda>v. cls_fn (the (cls_metrics v)) ! j) ?outs)))
                \<and> cls_f1_per_class cs ! j =
                  (if cls_precision_per_class cs ! j + cls_recall_per_class cs ! j = 0 then 0
                   else 2 * cls_precision_per_class cs ! j * cls_recall_per_class cs ! j
                        / (cls_precision_per_class cs ! j + cls_recall_per_class cs ! j))"
    unfolding Let_def by (auto simp: m)
  from q[THEN spec, of 0] have p0: "cls_precision_per_class cs ! 0 = 2 / 3"
    "cls_recall_per_class cs ! 0 = 1"
    by (simp_all add: m)
  from q[THEN spec, of 0] have "cls_f1_per_class cs ! 0 =
      (if cls_precision_per_class cs ! 0 + cls_recall_per_class cs ! 0 = 0 then 0
       else 2 * cls_precision_per_class cs ! 0 * cls_recall_per_class cs ! 0
            / (cls_precision_per_class cs ! 0 + cls_recall_per_class cs ! 0))"
    by simp
  then have f0: "cls_f1_per_class cs ! 0 = 4 / 5"
    unfolding p0 by simp
  from q[THEN spec, of 1] have p1: "cls_precision_per_class cs ! 1 = 0"
    "cls_recall_per_class cs ! 1 = 0"
    by (simp_all add: m)
  from q[THEN spec, of 1] have "cls_f1_per_class cs ! 1 =
      (if cls_precision_per_class cs ! 1 + cls_recall_per_class cs ! 1 = 0 then 0
       else 2 * cls_precision_per_class cs ! 1 * cls_recall_per_class cs ! 1
            / (cls_precision_per_class cs ! 1 + cls_recall_per_class cs ! 1))"
    by simp
  then have f1: "cls_f1_per_class cs ! 1 = 0"
    unfolding p1 by simp
  have g: "gatherable_losses loss [example_cls_step1] [example_cls_step2]"
    "gatherable_losses seg_loss [example_cls_step1] [example_cls_step2]"
    "gatherable_losses cls_loss [example_cls_step1] [example_cls_step2]"
    by (simp_all add: gatherable_losses_def example_defs)
  from t[THEN spec, THEN spec, of "[example_cls_step1]" "[example_cls_step2]"] g
  have w: "two_workers (on_validation_epoch_end example_ddp_trainer [example_cls_step1])
                      (on_validation_epoch_end example_ddp_trainer [example_cls_step2])
           = Some ((ev, Inr s), (ev, Inr s))"
    by (simp add: example_trainer_flags)
  from c have "\<exists>oc. collate_outputs ?outs = Inr oc" by blast
  with d m s w a p0 p1 f0 f1 show ?thesis by blast
qed

subsection \<open>The collective calls of a worker\<close>
















end
